theory Spec2Isabelle
  imports Main "HOL-Library.Word"
begin

section \<open>Data model\<close>

text \<open>
  The package \<open>pkg/azure\<close> drives the Azure network SDK. The SDK, the \<open>api\<close> package
  (port specs, the reporter interface) and the \<open>errors\<close> package are not part of the
  package; their values are modelled by the fields the package reads and writes.
\<close>

subsection \<open>Constants of azure.go\<close>

definition internalSecurityGroupSuffix :: string where
  "internalSecurityGroupSuffix = ''-nsg''"

definition internalSecurityRulePrefix :: string where
  "internalSecurityRulePrefix = ''Submariner-Internal-''"

definition forntendIPConfigurationName :: string where
  "forntendIPConfigurationName = ''public-lb-ip-v4''"

definition allNetworkCIDR :: string where
  "allNetworkCIDR = ''0.0.0.0/0''"

definition basePriority :: nat where
  "basePriority = 100"

subsection \<open>Values of the api package and of the SDK\<close>

text \<open>\<open>api.PortSpec\<close>: \<open>Port\<close> is a \<open>uint16\<close>, \<open>Protocol\<close> a string.\<close>

record PortSpec =
  Port :: "16 word"
  Protocol :: string

record PrepareForSubmarinerInput =
  InternalPorts :: "PortSpec list"

text \<open>\<open>network.Subnet\<close>, reduced to what identifies a subnet.\<close>

record Subnet =
  subnet_ID :: string
  subnet_Name :: string

datatype SecurityRuleAccess = SecurityRuleAccessAllow | SecurityRuleAccessDeny

datatype SecurityRuleDirection = SecurityRuleDirectionInbound | SecurityRuleDirectionOutbound

text \<open>
  Pointer fields of the SDK structs are options (\<open>None\<close> is \<open>nil\<close>); \<open>Priority\<close> is a
  pointer to an \<open>int32\<close>, read with \<open>sint\<close>.
\<close>

record SecurityRulePropertiesFormat =
  rule_Protocol :: string
  DestinationPortRange :: "string option"
  SourceAddressPrefix :: "string option"
  DestinationAddressPrefix :: "string option"
  SourcePortRange :: "string option"
  Access :: SecurityRuleAccess
  Direction :: SecurityRuleDirection
  Priority :: "32 word option"

record SecurityRule =
  rule_Name :: "string option"
  rule_properties :: "SecurityRulePropertiesFormat option"

record SecurityGroupPropertiesFormat =
  SecurityRules :: "SecurityRule list option"
  Subnets :: "Subnet list option"

record SecurityGroup =
  sg_Name :: "string option"
  sg_Location :: "string option"
  sg_properties :: "SecurityGroupPropertiesFormat option"

text \<open>The handle of a long-running operation that \<open>CreateOrUpdate\<close> and \<open>Delete\<close> return.\<close>

datatype future = Future nat

subsection \<open>Errors and messages\<close>

text \<open>
  An argument of a format string. What \<open>fmt\<close> prints for a pointer depends on addresses,
  so a formatted message is kept as its format and its arguments.
\<close>

datatype 'e fmtarg =
    AString string
  | AError 'e
  | ASubnetPtr Subnet
  | ASubnetsPtr "Subnet list option"

text \<open>
  A Go \<open>error\<close>: one that the SDK or another part of the repository produced, or one that
  \<open>errors.Wrapf\<close> or \<open>errors.WithMessage\<close> built around a cause.
\<close>

datatype error =
    SdkError string
  | Wrapped error string "error fmtarg list"
  | Messaged error string

text \<open>Both return \<open>nil\<close> when the cause is \<open>nil\<close>.\<close>

fun errors_Wrapf :: "error option \<Rightarrow> string \<Rightarrow> error fmtarg list \<Rightarrow> error option" where
  "errors_Wrapf None format args = None"
| "errors_Wrapf (Some err) format args = Some (Wrapped err format args)"

fun errors_WithMessage :: "error option \<Rightarrow> string \<Rightarrow> error option" where
  "errors_WithMessage None message = None"
| "errors_WithMessage (Some err) message = Some (Messaged err message)"

text \<open>A Go string: a literal, or the result of \<open>fmt.Sprintf\<close> left unrendered.\<close>

datatype gostring = Lit string | Sprintf string "error fmtarg list"

text \<open>
  The three methods of \<open>api.Reporter\<close>: \<open>Started\<close> and \<open>Succeeded\<close> take a message and
  its arguments, \<open>Failed\<close> takes the errors.
\<close>

datatype report =
    Started gostring "error fmtarg list"
  | Failed "error list"
  | Succeeded gostring "error fmtarg list"

subsection \<open>The state: the cloud and the trace\<close>

text \<open>\<open>CloudInfo\<close> (securitygroups.go), with the fields that are strings.\<close>

record CloudInfo =
  SubscriptionID :: string
  InfraID :: string
  Region :: string
  BaseGroupName :: string

text \<open>A call either returns or panics (a nil pointer dereference).\<close>

datatype 'a outcome = Returns 'a | Panics

text \<open>
  The calls that \<open>PrepareForSubmariner\<close> and \<open>CleanupAfterSubmariner\<close> make to the
  methods of the package, with their arguments (the receiver, the SDK clients and the
  reporter apart).
\<close>

datatype step_call =
    Call_openGWPorts string "PortSpec list"
  | Call_createSubmarinerLoadBalancingRules string string "PortSpec list"
  | Call_openInternalPorts string "PortSpec list"
  | Call_removeGWFirewallRules string
  | Call_deleteSubmarinerLoadBalancingRules string
  | Call_removeInternalFirewallRules string

text \<open>
  What the functions of the two source files do, in order: each SDK call with its
  arguments and what it returned, each call of a reporter (\<open>'r\<close> tells the reporters
  apart), and each return of one of the calls above, with what it returned.
\<close>

datatype 'r event =
    GetGroup string string "error + SecurityGroup"
  | CreateOrUpdateGroup string string SecurityGroup "error + future"
  | DeleteGroup string string "error + future"
  | Wait future "error option"
  | GetSubnet string string string "error + Subnet"
  | Report 'r report
  | Step step_call "error option outcome"

record ('w, 'r) state =
  cloud :: 'w
  trace :: "'r event list"

text \<open>
  The SDK is a parameter: its calls act on the state \<open>'w\<close> of the cloud and return a
  value or an error. The clients (\<open>nsgClient\<close>, \<open>lbClient\<close>, \<open>subnetClient\<close>) are handles
  on this one API and have no counterpart of their own; the contexts with their timeout
  of 300 seconds are part of what makes a call return an error.
\<close>

record 'w sdk =
  SecurityGroupsClient_Get :: "string \<Rightarrow> string \<Rightarrow> 'w \<Rightarrow> (error + SecurityGroup) \<times> 'w"
  SecurityGroupsClient_CreateOrUpdate ::
    "string \<Rightarrow> string \<Rightarrow> SecurityGroup \<Rightarrow> 'w \<Rightarrow> (error + future) \<times> 'w"
  SecurityGroupsClient_Delete :: "string \<Rightarrow> string \<Rightarrow> 'w \<Rightarrow> (error + future) \<times> 'w"
  WaitForCompletionRef :: "future \<Rightarrow> 'w \<Rightarrow> error option \<times> 'w"
  SubnetsClient_Get :: "string \<Rightarrow> string \<Rightarrow> string \<Rightarrow> 'w \<Rightarrow> (error + Subnet) \<times> 'w"

text \<open>
  The four functions whose bodies are missing are parameters as well: they get the
  receiver and their arguments, act on the cloud, and return an error, \<open>nil\<close>, or panic.
  None of them is handed the reporter.
\<close>

record 'w steps =
  openGWPorts :: "CloudInfo \<Rightarrow> string \<Rightarrow> PortSpec list \<Rightarrow> 'w \<Rightarrow> error option outcome \<times> 'w"
  createSubmarinerLoadBalancingRules ::
    "CloudInfo \<Rightarrow> string \<Rightarrow> string \<Rightarrow> PortSpec list \<Rightarrow> 'w \<Rightarrow> error option outcome \<times> 'w"
  removeGWFirewallRules :: "CloudInfo \<Rightarrow> string \<Rightarrow> 'w \<Rightarrow> error option outcome \<times> 'w"
  deleteSubmarinerLoadBalancingRules :: "CloudInfo \<Rightarrow> string \<Rightarrow> 'w \<Rightarrow> error option outcome \<times> 'w"

definition emit :: "'r event \<Rightarrow> ('w, 'r) state \<Rightarrow> ('w, 'r) state" where
  "emit ev s = s\<lparr>trace := trace s @ [ev]\<rparr>"

definition sgGet ::
  "'w sdk \<Rightarrow> string \<Rightarrow> string \<Rightarrow> ('w, 'r) state \<Rightarrow> (error + SecurityGroup) \<times> ('w, 'r) state" where
  "sgGet sdk resourceGroup name s =
     (case SecurityGroupsClient_Get sdk resourceGroup name (cloud s) of
        (res, w) \<Rightarrow> (res, emit (GetGroup resourceGroup name res) (s\<lparr>cloud := w\<rparr>)))"

definition sgCreateOrUpdate ::
  "'w sdk \<Rightarrow> string \<Rightarrow> string \<Rightarrow> SecurityGroup \<Rightarrow> ('w, 'r) state
     \<Rightarrow> (error + future) \<times> ('w, 'r) state" where
  "sgCreateOrUpdate sdk resourceGroup name parameters s =
     (case SecurityGroupsClient_CreateOrUpdate sdk resourceGroup name parameters (cloud s) of
        (res, w) \<Rightarrow>
          (res, emit (CreateOrUpdateGroup resourceGroup name parameters res) (s\<lparr>cloud := w\<rparr>)))"

definition sgDelete ::
  "'w sdk \<Rightarrow> string \<Rightarrow> string \<Rightarrow> ('w, 'r) state \<Rightarrow> (error + future) \<times> ('w, 'r) state" where
  "sgDelete sdk resourceGroup name s =
     (case SecurityGroupsClient_Delete sdk resourceGroup name (cloud s) of
        (res, w) \<Rightarrow> (res, emit (DeleteGroup resourceGroup name res) (s\<lparr>cloud := w\<rparr>)))"

definition waitFor ::
  "'w sdk \<Rightarrow> future \<Rightarrow> ('w, 'r) state \<Rightarrow> error option \<times> ('w, 'r) state" where
  "waitFor sdk fut s =
     (case WaitForCompletionRef sdk fut (cloud s) of
        (err, w) \<Rightarrow> (err, emit (Wait fut err) (s\<lparr>cloud := w\<rparr>)))"

definition subnetGet ::
  "'w sdk \<Rightarrow> string \<Rightarrow> string \<Rightarrow> string \<Rightarrow> ('w, 'r) state
     \<Rightarrow> (error + Subnet) \<times> ('w, 'r) state" where
  "subnetGet sdk resourceGroup vnet name s =
     (case SubnetsClient_Get sdk resourceGroup vnet name (cloud s) of
        (res, w) \<Rightarrow> (res, emit (GetSubnet resourceGroup vnet name res) (s\<lparr>cloud := w\<rparr>)))"

text \<open>A function whose body is missing runs on the cloud and leaves the trace alone.\<close>

definition onCloud ::
  "('w \<Rightarrow> error option outcome \<times> 'w) \<Rightarrow> ('w, 'r) state
     \<Rightarrow> error option outcome \<times> ('w, 'r) state" where
  "onCloud f s = (case f (cloud s) of (res, w) \<Rightarrow> (res, s\<lparr>cloud := w\<rparr>))"

text \<open>A function that cannot panic, as a step.\<close>

definition returning ::
  "(('w, 'r) state \<Rightarrow> error option \<times> ('w, 'r) state) \<Rightarrow> ('w, 'r) state
     \<Rightarrow> error option outcome \<times> ('w, 'r) state" where
  "returning f s = (case f s of (err, s') \<Rightarrow> (Returns err, s'))"

text \<open>Runs a step and records what it returned.\<close>

definition callStep ::
  "step_call \<Rightarrow> (('w, 'r) state \<Rightarrow> error option outcome \<times> ('w, 'r) state) \<Rightarrow> ('w, 'r) state
     \<Rightarrow> error option outcome \<times> ('w, 'r) state" where
  "callStep call f s = (case f s of (res, s') \<Rightarrow> (res, emit (Step call res) s'))"

definition reporter_call :: "'r \<Rightarrow> report \<Rightarrow> ('w, 'r) state \<Rightarrow> ('w, 'r) state" where
  "reporter_call reporter r s = emit (Report reporter r) s"

section \<open>strconv, fmt and strings\<close>

definition digit :: "nat \<Rightarrow> char" where
  "digit d = ''0123456789'' ! d"

function decimal :: "nat \<Rightarrow> string" where
  "decimal n = (if n < 10 then [digit n] else decimal (n div 10) @ [digit (n mod 10)])"
  by pat_completeness auto
termination
  by (relation "measure id") auto

declare decimal.simps [simp del]

text \<open>\<open>strconv.Itoa\<close>.\<close>

definition Itoa :: "int \<Rightarrow> string" where
  "Itoa i = (if i < 0 then ''-'' @ decimal (nat (- i)) else decimal (nat i))"

text \<open>\<open>strings.Join\<close>.\<close>

fun Join :: "string list \<Rightarrow> string \<Rightarrow> string" where
  "Join [] sep = []"
| "Join [a] sep = a"
| "Join (a # b # elems) sep = a @ sep @ Join (b # elems) sep"

section \<open>azure.go: formatPorts\<close>

text \<open>\<open>fmt.Sprintf("%d/%s", port.Port, port.Protocol)\<close>.\<close>

definition sprintf_port :: "PortSpec \<Rightarrow> string" where
  "sprintf_port port = decimal (unat (Port port)) @ ''/'' @ Protocol port"

text \<open>The loop of \<open>formatPorts\<close>, appending to \<open>portStrs\<close>.\<close>

fun formatPorts_loop :: "PortSpec list \<Rightarrow> string list \<Rightarrow> string list" where
  "formatPorts_loop [] portStrs = portStrs"
| "formatPorts_loop (port # ports) portStrs =
     formatPorts_loop ports (portStrs @ [sprintf_port port])"

definition formatPorts :: "PortSpec list \<Rightarrow> string" where
  "formatPorts ports = Join (formatPorts_loop ports []) '', ''"

section \<open>securitygroups.go\<close>

definition checkIfSecurityGroupPresent ::
  "'w sdk \<Rightarrow> string \<Rightarrow> string \<Rightarrow> ('w, 'r) state \<Rightarrow> bool \<times> ('w, 'r) state" where
  "checkIfSecurityGroupPresent sdk groupName baseGroupName s =
     (case sgGet sdk baseGroupName groupName s of
        (Inl err, s') \<Rightarrow> (False, s')
      | (Inr g, s') \<Rightarrow> (True, s'))"

definition getSubnet ::
  "'w sdk \<Rightarrow> string \<Rightarrow> string \<Rightarrow> string \<Rightarrow> ('w, 'r) state
     \<Rightarrow> (error + Subnet) \<times> ('w, 'r) state" where
  "getSubnet sdk virtualNetworkName subnetName baseGroupName s =
     (case subnetGet sdk baseGroupName virtualNetworkName subnetName s of
        (Inl err, s') \<Rightarrow> (Inl (Wrapped err ''error getting the subnet %q'' [AError err]), s')
      | (Inr subnet, s') \<Rightarrow> (Inr subnet, s'))"

definition createSecurityRule ::
  "CloudInfo \<Rightarrow> string \<Rightarrow> string \<Rightarrow> string \<Rightarrow> 16 word \<Rightarrow> 32 word \<Rightarrow> SecurityRule" where
  "createSecurityRule c srcIPPrefix destIPPrefix protocol port priority =
     \<lparr>rule_Name = Some (internalSecurityRulePrefix @ protocol @ ''-'' @ Itoa (uint port)),
      rule_properties = Some
        \<lparr>rule_Protocol = protocol,
         DestinationPortRange = Some (Itoa (uint port) @ ''-'' @ Itoa (uint port)),
         SourceAddressPrefix = Some srcIPPrefix,
         DestinationAddressPrefix = Some destIPPrefix,
         SourcePortRange = Some ''*'',
         Access = SecurityRuleAccessAllow,
         Direction = SecurityRuleDirectionInbound,
         Priority = Some priority\<rparr>\<rparr>"

text \<open>
  The loop of \<open>openInternalPorts\<close> over \<open>ports\<close>, with the index \<open>i\<close> and the slice
  \<open>securityRules\<close> it appends to. \<open>int32(basePriority+i)\<close> keeps the low 32 bits.
\<close>

fun securityRules_loop ::
  "CloudInfo \<Rightarrow> nat \<Rightarrow> PortSpec list \<Rightarrow> SecurityRule list \<Rightarrow> SecurityRule list" where
  "securityRules_loop c i [] securityRules = securityRules"
| "securityRules_loop c i (port # ports) securityRules =
     securityRules_loop c (Suc i) ports
       (securityRules @ [createSecurityRule c allNetworkCIDR allNetworkCIDR (Protocol port)
                           (Port port) (word_of_nat (basePriority + i))])"

definition openInternalPorts ::
  "'w sdk \<Rightarrow> CloudInfo \<Rightarrow> string \<Rightarrow> PortSpec list \<Rightarrow> 'r \<Rightarrow> ('w, 'r) state
     \<Rightarrow> error option \<times> ('w, 'r) state" where
  "openInternalPorts sdk c infraID ports reporter s =
     (let groupName = infraID @ internalSecurityGroupSuffix in
      case checkIfSecurityGroupPresent sdk groupName (BaseGroupName c) s of
        (isFound, s1) \<Rightarrow>
      if isFound then (None, s1)
      else
        let securityRules = securityRules_loop c 0 ports [];
            vnetName = infraID @ ''-vnet'';
            workerSubnetName = infraID @ ''-worker-subnet'';
            masterSubnetName = infraID @ ''-master-subnet''
        in
        case getSubnet sdk vnetName workerSubnetName (BaseGroupName c) s1 of
          (Inl err, s2) \<Rightarrow>
            (errors_Wrapf (Some err) ''failed to retrieve subnet %q''
               [AString (infraID @ ''-worker-subnet'')], s2)
        | (Inr workerSubnet, s2) \<Rightarrow>
        case getSubnet sdk vnetName masterSubnetName (BaseGroupName c) s2 of
          (Inl err, s3) \<Rightarrow>
            (errors_Wrapf (Some err) ''failed to retrieve subnet %q''
               [AString (infraID @ ''-master-subnet'')], s3)
        | (Inr masterSubnet, s3) \<Rightarrow>
        let s4 = reporter_call reporter
                   (Started (Sprintf ''The subnets are masterSubnet = %v , workerSubnet = %v''
                      [ASubnetPtr workerSubnet, ASubnetPtr masterSubnet]) []) s3;
            subnets = [workerSubnet, masterSubnet];
            nwSecurityGroup =
              \<lparr>sg_Name = Some groupName,
               sg_Location = Some (Region c),
               sg_properties = Some \<lparr>SecurityRules = Some securityRules, Subnets = Some subnets\<rparr>\<rparr>;
            s5 = reporter_call reporter
                   (Succeeded (Sprintf ''The subnets %v'' [ASubnetsPtr (Some subnets)]) []) s4
        in
        case sgCreateOrUpdate sdk (BaseGroupName c) groupName nwSecurityGroup s5 of
          (Inl err, s6) \<Rightarrow>
            (errors_Wrapf (Some err) ''creating security group %q failed'' [AString groupName], s6)
        | (Inr fut, s6) \<Rightarrow>
        case waitFor sdk fut s6 of
          (err, s7) \<Rightarrow>
            (errors_Wrapf err ''Error creating  security group %v '' [AString groupName], s7))"

text \<open>
  \<open>nwSecurityGroup.SecurityGroupPropertiesFormat.Subnets = nil\<close> dereferences the
  properties of the group that \<open>Get\<close> returned: the function panics when they are \<open>nil\<close>.
\<close>

definition removeInternalFirewallRules ::
  "'w sdk \<Rightarrow> CloudInfo \<Rightarrow> string \<Rightarrow> ('w, 'r) state
     \<Rightarrow> error option outcome \<times> ('w, 'r) state" where
  "removeInternalFirewallRules sdk c infraID s =
     (let groupName = infraID @ internalSecurityGroupSuffix in
      case sgGet sdk (BaseGroupName c) groupName s of
        (Inl err, s1) \<Rightarrow>
          (Returns (errors_Wrapf (Some err) ''error getting the securitygroup %q''
             [AString groupName]), s1)
      | (Inr nwSecurityGroup, s1) \<Rightarrow>
      case sg_properties nwSecurityGroup of
        None \<Rightarrow> (Panics, s1)
      | Some properties \<Rightarrow>
      let nwSecurityGroup' =
            nwSecurityGroup\<lparr>sg_properties := Some (properties\<lparr>Subnets := None\<rparr>)\<rparr>
      in
      case sgCreateOrUpdate sdk (BaseGroupName c) groupName nwSecurityGroup' s1 of
        (Inl err, s2) \<Rightarrow>
          (Returns (errors_Wrapf (Some err) ''removing security group %q from subnets failed''
             [AString groupName]), s2)
      | (Inr updateFuture, s2) \<Rightarrow>
      case waitFor sdk updateFuture s2 of
        (Some err, s3) \<Rightarrow>
          (Returns (errors_Wrapf (Some err) ''waiting for security group  %q to be updated failed''
             [AString groupName]), s3)
      | (None, s3) \<Rightarrow>
      case sgDelete sdk (BaseGroupName c) groupName s3 of
        (Inl err, s4) \<Rightarrow>
          (Returns (errors_Wrapf (Some err) ''deleting security group %q failed''
             [AString groupName]), s4)
      | (Inr deleteFuture, s4) \<Rightarrow>
      case waitFor sdk deleteFuture s4 of
        (Some err, s5) \<Rightarrow>
          (Returns (errors_Wrapf (Some err) ''waiting for security group  %q to be deleted failed''
             [AString groupName]), s5)
      | (None, s5) \<Rightarrow>
          (Returns (errors_WithMessage None ''failed to remove security group from servers''), s5))"

section \<open>azure.go\<close>

text \<open>
  \<open>PrepareForSubmariner\<close> calls \<open>openInternalPorts\<close> with three arguments (the infra ID,
  the ports, the security groups client), where securitygroups.go declares five. The
  subnets client is part of \<open>sdk\<close>; the reporter that the call leaves out is the
  parameter \<open>subnetsReporter\<close>.
\<close>

definition PrepareForSubmariner ::
  "'w sdk \<Rightarrow> 'w steps \<Rightarrow> CloudInfo \<Rightarrow> 'r \<Rightarrow> PrepareForSubmarinerInput \<Rightarrow> 'r \<Rightarrow> ('w, 'r) state
     \<Rightarrow> error option outcome \<times> ('w, 'r) state" where
  "PrepareForSubmariner sdk steps az subnetsReporter input reporter s =
     (let s0 = reporter_call reporter
                 (Started (Lit ''Opening internal ports for intra-cluster communications on RHOS'')
                    []) s
      in
      case callStep (Call_openGWPorts (InfraID az) (InternalPorts input))
             (onCloud (openGWPorts steps az (InfraID az) (InternalPorts input))) s0 of
        (Panics, s1) \<Rightarrow> (Panics, s1)
      | (Returns (Some errGW), s1) \<Rightarrow>
          (Returns (Some errGW), reporter_call reporter (Failed [errGW]) s1)
      | (Returns None, s1) \<Rightarrow>
      case callStep
             (Call_createSubmarinerLoadBalancingRules (InfraID az) forntendIPConfigurationName
                (InternalPorts input))
             (onCloud (createSubmarinerLoadBalancingRules steps az (InfraID az)
                forntendIPConfigurationName (InternalPorts input))) s1 of
        (Panics, s2) \<Rightarrow> (Panics, s2)
      | (Returns (Some err), s2) \<Rightarrow>
          (Returns (Some err), reporter_call reporter (Failed [err]) s2)
      | (Returns None, s2) \<Rightarrow>
      case callStep (Call_openInternalPorts (InfraID az) (InternalPorts input))
             (returning
                (openInternalPorts sdk az (InfraID az) (InternalPorts input) subnetsReporter))
             s2 of
        (Panics, s3) \<Rightarrow> (Panics, s3)
      | (Returns (Some err), s3) \<Rightarrow>
          (Returns (Some err), reporter_call reporter (Failed [err]) s3)
      | (Returns None, s3) \<Rightarrow>
          (Returns None,
           reporter_call reporter
             (Succeeded
                (Lit ''Opened internal ports %q for intra-cluster communications on RHOS'')
                [AString (formatPorts (InternalPorts input))]) s3))"

definition CleanupAfterSubmariner ::
  "'w sdk \<Rightarrow> 'w steps \<Rightarrow> CloudInfo \<Rightarrow> 'r \<Rightarrow> ('w, 'r) state
     \<Rightarrow> error option outcome \<times> ('w, 'r) state" where
  "CleanupAfterSubmariner sdk steps az reporter s =
     (let s0 = reporter_call reporter
                 (Started (Lit ''Revoking intra-cluster communication permissions'') []) s
      in
      case callStep (Call_removeGWFirewallRules (InfraID az))
             (onCloud (removeGWFirewallRules steps az (InfraID az))) s0 of
        (Panics, s1) \<Rightarrow> (Panics, s1)
      | (Returns (Some errGW), s1) \<Rightarrow>
          (Returns (Some errGW), reporter_call reporter (Failed [errGW]) s1)
      | (Returns None, s1) \<Rightarrow>
      case callStep (Call_deleteSubmarinerLoadBalancingRules (InfraID az))
             (onCloud (deleteSubmarinerLoadBalancingRules steps az (InfraID az))) s1 of
        (Panics, s2) \<Rightarrow> (Panics, s2)
      | (Returns (Some err), s2) \<Rightarrow>
          (Returns (Some err), reporter_call reporter (Failed [err]) s2)
      | (Returns None, s2) \<Rightarrow>
      case callStep (Call_removeInternalFirewallRules (InfraID az))
             (removeInternalFirewallRules sdk az (InfraID az)) s2 of
        (Panics, s3) \<Rightarrow> (Panics, s3)
      | (Returns (Some err), s3) \<Rightarrow>
          (Returns (Some err), reporter_call reporter (Failed [err]) s3)
      | (Returns None, s3) \<Rightarrow>
          (Returns None,
           reporter_call reporter
             (Succeeded (Lit ''Revoked intra-cluster communication permissions'') []) s3))"

section \<open>Reading a trace\<close>

text \<open>The reports made to one reporter, in order.\<close>

fun reports_of :: "'r \<Rightarrow> 'r event list \<Rightarrow> report list" where
  "reports_of r [] = []"
| "reports_of r (Report r' x # evs) = (if r' = r then x # reports_of r evs else reports_of r evs)"
| "reports_of r (ev # evs) = reports_of r evs"


fun is_CreateOrUpdate :: "'r event \<Rightarrow> bool" where
  "is_CreateOrUpdate (CreateOrUpdateGroup resourceGroup name parameters res) = True"
| "is_CreateOrUpdate ev = False"


text \<open>
  The group that \<open>openInternalPorts\<close> builds from the two subnets it found, and the events
  of the call up to there. The group that \<open>removeInternalFirewallRules\<close> writes back: the
  one it fetched, with \<open>Subnets\<close> set to \<open>nil\<close>.
\<close>

abbreviation new_group :: "CloudInfo \<Rightarrow> string \<Rightarrow> PortSpec list \<Rightarrow> Subnet \<Rightarrow> Subnet \<Rightarrow> SecurityGroup" where
  "new_group c infraID ports ws ms \<equiv>
     \<lparr>sg_Name = Some (infraID @ ''-nsg''), sg_Location = Some (Region c),
      sg_properties = Some \<lparr>SecurityRules = Some (securityRules_loop c 0 ports []),
                             Subnets = Some [ws, ms]\<rparr>\<rparr>"

abbreviation lookups :: "CloudInfo \<Rightarrow> string \<Rightarrow> 'r \<Rightarrow> error \<Rightarrow> Subnet \<Rightarrow> Subnet \<Rightarrow> 'r event list" where
  "lookups c infraID rep e ws ms \<equiv>
     [GetGroup (BaseGroupName c) (infraID @ ''-nsg'') (Inl e),
      GetSubnet (BaseGroupName c) (infraID @ ''-vnet'') (infraID @ ''-worker-subnet'') (Inr ws),
      GetSubnet (BaseGroupName c) (infraID @ ''-vnet'') (infraID @ ''-master-subnet'') (Inr ms),
      Report rep (Started (Sprintf ''The subnets are masterSubnet = %v , workerSubnet = %v''
                      [ASubnetPtr ws, ASubnetPtr ms]) []),
      Report rep (Succeeded (Sprintf ''The subnets %v'' [ASubnetsPtr (Some [ws, ms])]) [])]"

abbreviation detached :: "SecurityGroup \<Rightarrow> SecurityGroupPropertiesFormat \<Rightarrow> SecurityGroup" where
  "detached g p \<equiv> g\<lparr>sg_properties := Some (p\<lparr>Subnets := None\<rparr>)\<rparr>"

text \<open>The future that a create, update or delete returned, if it returned one.\<close>

fun issued_future :: "'r event \<Rightarrow> future option" where
  "issued_future (CreateOrUpdateGroup resourceGroup name parameters (Inr fut)) = Some fut"
| "issued_future (DeleteGroup resourceGroup name (Inr fut)) = Some fut"
| "issued_future ev = None"

text \<open>Each future that was returned is waited for in the very next event.\<close>

fun waited :: "'r event list \<Rightarrow> bool" where
  "waited [] = True"
| "waited (ev # evs) =
     ((case issued_future ev of
         None \<Rightarrow> True
       | Some fut \<Rightarrow> (case evs of Wait fut' res # rest \<Rightarrow> fut' = fut | _ \<Rightarrow> False))
      \<and> waited evs)"

text \<open>The messages and the calls of azure.go.\<close>

abbreviation prepare_Started :: report where
  "prepare_Started \<equiv>
     Started (Lit ''Opening internal ports for intra-cluster communications on RHOS'') []"

abbreviation prepare_Succeeded :: "PortSpec list \<Rightarrow> report" where
  "prepare_Succeeded ports \<equiv>
     Succeeded (Lit ''Opened internal ports %q for intra-cluster communications on RHOS'')
       [AString (formatPorts ports)]"

abbreviation cleanup_Started :: report where
  "cleanup_Started \<equiv> Started (Lit ''Revoking intra-cluster communication permissions'') []"

abbreviation cleanup_Succeeded :: report where
  "cleanup_Succeeded \<equiv> Succeeded (Lit ''Revoked intra-cluster communication permissions'') []"

abbreviation gw_call :: "CloudInfo \<Rightarrow> PrepareForSubmarinerInput \<Rightarrow> step_call" where
  "gw_call az input \<equiv> Call_openGWPorts (InfraID az) (InternalPorts input)"

abbreviation lb_call :: "CloudInfo \<Rightarrow> PrepareForSubmarinerInput \<Rightarrow> step_call" where
  "lb_call az input \<equiv>
     Call_createSubmarinerLoadBalancingRules (InfraID az) ''public-lb-ip-v4'' (InternalPorts input)"

abbreviation internal_call :: "CloudInfo \<Rightarrow> PrepareForSubmarinerInput \<Rightarrow> step_call" where
  "internal_call az input \<equiv> Call_openInternalPorts (InfraID az) (InternalPorts input)"

text \<open>What the last step returned, as the report that follows it.\<close>

fun verdict :: "report \<Rightarrow> error option \<Rightarrow> report" where
  "verdict succeeded None = succeeded"
| "verdict succeeded (Some err) = Failed [err]"

text \<open>The reports after a step, from what it returned: none when it panicked.\<close>

fun verdicts :: "'r \<Rightarrow> report \<Rightarrow> error option outcome \<Rightarrow> 'r event list" where
  "verdicts r succeeded Panics = []"
| "verdicts r succeeded (Returns err) = [Report r (verdict succeeded err)]"

abbreviation gw_removal :: "CloudInfo \<Rightarrow> step_call" where
  "gw_removal az \<equiv> Call_removeGWFirewallRules (InfraID az)"

abbreviation lb_removal :: "CloudInfo \<Rightarrow> step_call" where
  "lb_removal az \<equiv> Call_deleteSubmarinerLoadBalancingRules (InfraID az)"

abbreviation internal_removal :: "CloudInfo \<Rightarrow> step_call" where
  "internal_removal az \<equiv> Call_removeInternalFirewallRules (InfraID az)"

text \<open>The priority of a rule, \<open>nil\<close> when the rule has no properties.\<close>

definition rule_priority :: "SecurityRule \<Rightarrow> 32 word option" where
  "rule_priority rule =
     (case rule_properties rule of None \<Rightarrow> None | Some properties \<Rightarrow> Priority properties)"

text \<open>The rule that the loop of \<open>openInternalPorts\<close> makes for the port at index \<open>i\<close>.\<close>

abbreviation internal_rule :: "CloudInfo \<Rightarrow> nat \<Rightarrow> PortSpec \<Rightarrow> SecurityRule" where
  "internal_rule c i port \<equiv>
     createSecurityRule c allNetworkCIDR allNetworkCIDR (Protocol port) (Port port)
       (word_of_nat (basePriority + i))"

section \<open>A cloud in memory\<close>

text \<open>
  An SDK to run the functions on: security groups and subnets are kept in association
  lists, a call named in \<open>sim_faults\<close> fails, and a long-running operation takes effect
  at once.
\<close>

datatype sim_op = Op_GetGroup | Op_CreateOrUpdate | Op_Delete | Op_Wait | Op_GetSubnet

record sim_cloud =
  sim_groups :: "((string \<times> string) \<times> SecurityGroup) list"
  sim_subnets :: "((string \<times> string \<times> string) \<times> Subnet) list"
  sim_faults :: "sim_op list"

definition sim_fault :: "sim_op \<Rightarrow> sim_cloud \<Rightarrow> bool" where
  "sim_fault op w = (op \<in> set (sim_faults w))"

definition sim_sdk :: "sim_cloud sdk" where
  "sim_sdk =
     \<lparr>SecurityGroupsClient_Get = (\<lambda>resourceGroup name w.
        if sim_fault Op_GetGroup w then (Inl (SdkError ''Timeout''), w)
        else case map_of (sim_groups w) (resourceGroup, name) of
               None \<Rightarrow> (Inl (SdkError ''ResourceNotFound''), w)
             | Some g \<Rightarrow> (Inr g, w)),
      SecurityGroupsClient_CreateOrUpdate = (\<lambda>resourceGroup name parameters w.
        if sim_fault Op_CreateOrUpdate w then (Inl (SdkError ''Timeout''), w)
        else (Inr (Future 1),
              w\<lparr>sim_groups := ((resourceGroup, name), parameters) # sim_groups w\<rparr>)),
      SecurityGroupsClient_Delete = (\<lambda>resourceGroup name w.
        if sim_fault Op_Delete w then (Inl (SdkError ''Timeout''), w)
        else (Inr (Future 2),
              w\<lparr>sim_groups := filter (\<lambda>kv. fst kv \<noteq> (resourceGroup, name)) (sim_groups w)\<rparr>)),
      WaitForCompletionRef = (\<lambda>fut w.
        if sim_fault Op_Wait w then (Some (SdkError ''Timeout''), w) else (None, w)),
      SubnetsClient_Get = (\<lambda>resourceGroup vnet name w.
        if sim_fault Op_GetSubnet w then (Inl (SdkError ''Timeout''), w)
        else case map_of (sim_subnets w) (resourceGroup, vnet, name) of
               None \<Rightarrow> (Inl (SdkError ''ResourceNotFound''), w)
             | Some subnet \<Rightarrow> (Inr subnet, w))\<rparr>"

text \<open>Steps that do nothing and return \<open>nil\<close>, and steps of which the first fails.\<close>

definition sim_steps :: "sim_cloud steps" where
  "sim_steps =
     \<lparr>openGWPorts = (\<lambda>c infraID ports w. (Returns None, w)),
      createSubmarinerLoadBalancingRules = (\<lambda>c infraID name ports w. (Returns None, w)),
      removeGWFirewallRules = (\<lambda>c infraID w. (Returns None, w)),
      deleteSubmarinerLoadBalancingRules = (\<lambda>c infraID w. (Returns None, w))\<rparr>"

definition sim_steps_gw_fails :: "sim_cloud steps" where
  "sim_steps_gw_fails =
     sim_steps
       \<lparr>openGWPorts := (\<lambda>c infraID ports w. (Returns (Some (SdkError ''Forbidden'')), w)),
        removeGWFirewallRules := (\<lambda>c infraID w. (Returns (Some (SdkError ''Forbidden'')), w))\<rparr>"

definition sim_steps_lb_fails :: "sim_cloud steps" where
  "sim_steps_lb_fails =
     sim_steps
       \<lparr>createSubmarinerLoadBalancingRules :=
          (\<lambda>c infraID name ports w. (Returns (Some (SdkError ''Conflict'')), w))\<rparr>"

definition sim_az :: CloudInfo where
  "sim_az = \<lparr>SubscriptionID = ''sub'', InfraID = ''c1'', Region = ''eu'', BaseGroupName = ''rg''\<rparr>"

definition sim_worker :: Subnet where
  "sim_worker = \<lparr>subnet_ID = ''id-w'', subnet_Name = ''c1-worker-subnet''\<rparr>"

definition sim_master :: Subnet where
  "sim_master = \<lparr>subnet_ID = ''id-m'', subnet_Name = ''c1-master-subnet''\<rparr>"

text \<open>A cluster with its two subnets and no internal security group.\<close>

definition sim_fresh :: sim_cloud where
  "sim_fresh =
     \<lparr>sim_groups = [],
      sim_subnets = [((''rg'', ''c1-vnet'', ''c1-worker-subnet''), sim_worker),
                     ((''rg'', ''c1-vnet'', ''c1-master-subnet''), sim_master)],
      sim_faults = []\<rparr>"

definition sim_ports :: "PortSpec list" where
  "sim_ports = [\<lparr>Port = 4800, Protocol = ''udp''\<rparr>, \<lparr>Port = 8080, Protocol = ''tcp''\<rparr>]"

definition sim_input :: PrepareForSubmarinerInput where
  "sim_input = \<lparr>InternalPorts = sim_ports\<rparr>"

definition sim_start :: "sim_cloud \<Rightarrow> (sim_cloud, nat) state" where
  "sim_start w = \<lparr>cloud = w, trace = []\<rparr>"

definition sim_group :: SecurityGroup where
  "sim_group =
     \<lparr>sg_Name = Some ''c1-nsg'', sg_Location = Some ''eu'',
      sg_properties = Some \<lparr>SecurityRules = Some [], Subnets = Some [sim_worker, sim_master]\<rparr>\<rparr>"

text \<open>The cluster once its internal security group exists.\<close>

definition sim_prepared :: sim_cloud where
  "sim_prepared = sim_fresh\<lparr>sim_groups := [((''rg'', ''c1-nsg''), sim_group)]\<rparr>"

text \<open>The same, at a time when every \<open>Get\<close> of a security group times out.\<close>

definition sim_flaky :: sim_cloud where
  "sim_flaky = sim_prepared\<lparr>sim_faults := [Op_GetGroup]\<rparr>"

text \<open>The cluster without its master subnet, and without any subnet.\<close>

definition sim_no_master :: sim_cloud where
  "sim_no_master =
     sim_fresh\<lparr>sim_subnets := [((''rg'', ''c1-vnet'', ''c1-worker-subnet''), sim_worker)]\<rparr>"

definition sim_no_subnets :: sim_cloud where
  "sim_no_subnets = sim_fresh\<lparr>sim_subnets := []\<rparr>"

text \<open>The cluster at a time when waiting for an operation times out.\<close>

definition sim_slow :: sim_cloud where
  "sim_slow = sim_fresh\<lparr>sim_faults := [Op_Wait]\<rparr>"

text \<open>The cluster with its internal security group, at a time when updates time out.\<close>

definition sim_locked :: sim_cloud where
  "sim_locked = sim_prepared\<lparr>sim_faults := [Op_CreateOrUpdate]\<rparr>"


text \<open>The cloud that a first \<open>PrepareForSubmariner\<close> leaves.\<close>

definition sim_after_prepare :: sim_cloud where
  "sim_after_prepare =
     cloud (snd (PrepareForSubmariner sim_sdk sim_steps sim_az 1 sim_input (0::nat)
       (sim_start sim_fresh)))"

text \<open>The cloud that a first \<open>CleanupAfterSubmariner\<close> leaves.\<close>

definition sim_after_cleanup :: sim_cloud where
  "sim_after_cleanup =
     cloud (snd (CleanupAfterSubmariner sim_sdk sim_steps sim_az (0::nat)
       (sim_start sim_prepared)))"

section \<open>Unfolding and evaluation\<close>

lemmas run_defs = sgGet_def sgCreateOrUpdate_def sgDelete_def waitFor_def subnetGet_def
  onCloud_def returning_def callStep_def reporter_call_def emit_def Let_def

lemmas func_defs = PrepareForSubmariner_def CleanupAfterSubmariner_def openInternalPorts_def
  removeInternalFirewallRules_def checkIfSecurityGroupPresent_def getSubnet_def
  createSecurityRule_def formatPorts_def sprintf_port_def Itoa_def
  internalSecurityGroupSuffix_def internalSecurityRulePrefix_def forntendIPConfigurationName_def
  allNetworkCIDR_def basePriority_def

lemma decimal_small: "n < 10 \<Longrightarrow> decimal n = [digit n]"
  by (simp add: decimal.simps)

lemma decimal_big: "\<not> n < 10 \<Longrightarrow> decimal n = decimal (n div 10) @ [digit (n mod 10)]"
  by (subst decimal.simps) simp

lemmas sim_defs = sim_sdk_def sim_steps_def sim_steps_gw_fails_def sim_az_def sim_worker_def
  sim_master_def sim_fresh_def sim_ports_def sim_input_def sim_start_def sim_fault_def
  sim_group_def sim_prepared_def sim_flaky_def sim_steps_lb_fails_def
  sim_no_master_def sim_no_subnets_def sim_slow_def sim_locked_def
  decimal_small decimal_big digit_def

section \<open>The paths of openInternalPorts\<close>

lemmas oip_defs = openInternalPorts_def checkIfSecurityGroupPresent_def getSubnet_def run_defs
  internalSecurityGroupSuffix_def

lemma oip_found:
  "SecurityGroupsClient_Get sdk (BaseGroupName c) (infraID @ ''-nsg'') (cloud s) = (Inr g, w) \<Longrightarrow>
   openInternalPorts sdk c infraID ports rep s =
     (None, s\<lparr>cloud := w,
              trace := trace s @ [GetGroup (BaseGroupName c) (infraID @ ''-nsg'') (Inr g)]\<rparr>)"
  by (simp add: oip_defs)

lemma oip_worker_fails:
  "SecurityGroupsClient_Get sdk (BaseGroupName c) (infraID @ ''-nsg'') (cloud s) = (Inl e, w) \<Longrightarrow>
   SubnetsClient_Get sdk (BaseGroupName c) (infraID @ ''-vnet'') (infraID @ ''-worker-subnet'') w
     = (Inl e1, w1) \<Longrightarrow>
   openInternalPorts sdk c infraID ports rep s =
     (Some (Wrapped (Wrapped e1 ''error getting the subnet %q'' [AError e1])
              ''failed to retrieve subnet %q'' [AString (infraID @ ''-worker-subnet'')]),
      s\<lparr>cloud := w1,
        trace := trace s @
          [GetGroup (BaseGroupName c) (infraID @ ''-nsg'') (Inl e),
           GetSubnet (BaseGroupName c) (infraID @ ''-vnet'') (infraID @ ''-worker-subnet'')
             (Inl e1)]\<rparr>)"
  by (simp add: oip_defs)

lemma oip_master_fails:
  "SecurityGroupsClient_Get sdk (BaseGroupName c) (infraID @ ''-nsg'') (cloud s) = (Inl e, w) \<Longrightarrow>
   SubnetsClient_Get sdk (BaseGroupName c) (infraID @ ''-vnet'') (infraID @ ''-worker-subnet'') w
     = (Inr ws, w1) \<Longrightarrow>
   SubnetsClient_Get sdk (BaseGroupName c) (infraID @ ''-vnet'') (infraID @ ''-master-subnet'') w1
     = (Inl e2, w2) \<Longrightarrow>
   openInternalPorts sdk c infraID ports rep s =
     (Some (Wrapped (Wrapped e2 ''error getting the subnet %q'' [AError e2])
              ''failed to retrieve subnet %q'' [AString (infraID @ ''-master-subnet'')]),
      s\<lparr>cloud := w2,
        trace := trace s @
          [GetGroup (BaseGroupName c) (infraID @ ''-nsg'') (Inl e),
           GetSubnet (BaseGroupName c) (infraID @ ''-vnet'') (infraID @ ''-worker-subnet'')
             (Inr ws),
           GetSubnet (BaseGroupName c) (infraID @ ''-vnet'') (infraID @ ''-master-subnet'')
             (Inl e2)]\<rparr>)"
  by (simp add: oip_defs)

lemma oip_create_fails:
  "SecurityGroupsClient_Get sdk (BaseGroupName c) (infraID @ ''-nsg'') (cloud s) = (Inl e, w) \<Longrightarrow>
   SubnetsClient_Get sdk (BaseGroupName c) (infraID @ ''-vnet'') (infraID @ ''-worker-subnet'') w
     = (Inr ws, w1) \<Longrightarrow>
   SubnetsClient_Get sdk (BaseGroupName c) (infraID @ ''-vnet'') (infraID @ ''-master-subnet'') w1
     = (Inr ms, w2) \<Longrightarrow>
   SecurityGroupsClient_CreateOrUpdate sdk (BaseGroupName c) (infraID @ ''-nsg'')
     (new_group c infraID ports ws ms) w2 = (Inl e3, w3) \<Longrightarrow>
   openInternalPorts sdk c infraID ports rep s =
     (Some (Wrapped e3 ''creating security group %q failed'' [AString (infraID @ ''-nsg'')]),
      s\<lparr>cloud := w3,
        trace := trace s @ lookups c infraID rep e ws ms @
          [CreateOrUpdateGroup (BaseGroupName c) (infraID @ ''-nsg'')
             (new_group c infraID ports ws ms) (Inl e3)]\<rparr>)"
  by (simp add: oip_defs)

lemma oip_created:
  "SecurityGroupsClient_Get sdk (BaseGroupName c) (infraID @ ''-nsg'') (cloud s) = (Inl e, w) \<Longrightarrow>
   SubnetsClient_Get sdk (BaseGroupName c) (infraID @ ''-vnet'') (infraID @ ''-worker-subnet'') w
     = (Inr ws, w1) \<Longrightarrow>
   SubnetsClient_Get sdk (BaseGroupName c) (infraID @ ''-vnet'') (infraID @ ''-master-subnet'') w1
     = (Inr ms, w2) \<Longrightarrow>
   SecurityGroupsClient_CreateOrUpdate sdk (BaseGroupName c) (infraID @ ''-nsg'')
     (new_group c infraID ports ws ms) w2 = (Inr fut, w3) \<Longrightarrow>
   WaitForCompletionRef sdk fut w3 = (err, w4) \<Longrightarrow>
   openInternalPorts sdk c infraID ports rep s =
     (errors_Wrapf err ''Error creating  security group %v '' [AString (infraID @ ''-nsg'')],
      s\<lparr>cloud := w4,
        trace := trace s @ lookups c infraID rep e ws ms @
          [CreateOrUpdateGroup (BaseGroupName c) (infraID @ ''-nsg'')
             (new_group c infraID ports ws ms) (Inr fut),
           Wait fut err]\<rparr>)"
  by (simp add: oip_defs)


lemma oip_cases [case_names found worker_fails master_fails create_fails created]:
  assumes "\<And>g w. SecurityGroupsClient_Get sdk (BaseGroupName c) (infraID @ ''-nsg'') (cloud s)
             = (Inr g, w) \<Longrightarrow> P"
    and "\<And>e w e1 w1.
           SecurityGroupsClient_Get sdk (BaseGroupName c) (infraID @ ''-nsg'') (cloud s)
             = (Inl e, w) \<Longrightarrow>
           SubnetsClient_Get sdk (BaseGroupName c) (infraID @ ''-vnet'')
             (infraID @ ''-worker-subnet'') w = (Inl e1, w1) \<Longrightarrow> P"
    and "\<And>e w ws w1 e2 w2.
           SecurityGroupsClient_Get sdk (BaseGroupName c) (infraID @ ''-nsg'') (cloud s)
             = (Inl e, w) \<Longrightarrow>
           SubnetsClient_Get sdk (BaseGroupName c) (infraID @ ''-vnet'')
             (infraID @ ''-worker-subnet'') w = (Inr ws, w1) \<Longrightarrow>
           SubnetsClient_Get sdk (BaseGroupName c) (infraID @ ''-vnet'')
             (infraID @ ''-master-subnet'') w1 = (Inl e2, w2) \<Longrightarrow> P"
    and "\<And>e w ws w1 ms w2 e3 w3.
           SecurityGroupsClient_Get sdk (BaseGroupName c) (infraID @ ''-nsg'') (cloud s)
             = (Inl e, w) \<Longrightarrow>
           SubnetsClient_Get sdk (BaseGroupName c) (infraID @ ''-vnet'')
             (infraID @ ''-worker-subnet'') w = (Inr ws, w1) \<Longrightarrow>
           SubnetsClient_Get sdk (BaseGroupName c) (infraID @ ''-vnet'')
             (infraID @ ''-master-subnet'') w1 = (Inr ms, w2) \<Longrightarrow>
           SecurityGroupsClient_CreateOrUpdate sdk (BaseGroupName c) (infraID @ ''-nsg'')
             (new_group c infraID ports ws ms) w2 = (Inl e3, w3) \<Longrightarrow> P"
    and "\<And>e w ws w1 ms w2 fut w3 err w4.
           SecurityGroupsClient_Get sdk (BaseGroupName c) (infraID @ ''-nsg'') (cloud s)
             = (Inl e, w) \<Longrightarrow>
           SubnetsClient_Get sdk (BaseGroupName c) (infraID @ ''-vnet'')
             (infraID @ ''-worker-subnet'') w = (Inr ws, w1) \<Longrightarrow>
           SubnetsClient_Get sdk (BaseGroupName c) (infraID @ ''-vnet'')
             (infraID @ ''-master-subnet'') w1 = (Inr ms, w2) \<Longrightarrow>
           SecurityGroupsClient_CreateOrUpdate sdk (BaseGroupName c) (infraID @ ''-nsg'')
             (new_group c infraID ports ws ms) w2 = (Inr fut, w3) \<Longrightarrow>
           WaitForCompletionRef sdk fut w3 = (err, w4) \<Longrightarrow> P"
  shows P
proof -
  obtain r w where get: "SecurityGroupsClient_Get sdk (BaseGroupName c) (infraID @ ''-nsg'')
      (cloud s) = (r, w)"
    by (cases "SecurityGroupsClient_Get sdk (BaseGroupName c) (infraID @ ''-nsg'') (cloud s)")
  show P
  proof (cases r)
    case (Inr g)
    with get assms(1) show P by simp
  next
    case e: (Inl e)
    obtain r1 w1 where worker: "SubnetsClient_Get sdk (BaseGroupName c) (infraID @ ''-vnet'')
        (infraID @ ''-worker-subnet'') w = (r1, w1)"
      by (cases "SubnetsClient_Get sdk (BaseGroupName c) (infraID @ ''-vnet'')
        (infraID @ ''-worker-subnet'') w")
    show P
    proof (cases r1)
      case (Inl e1)
      with get e worker assms(2) show P by simp
    next
      case ws: (Inr ws)
      obtain r2 w2 where master: "SubnetsClient_Get sdk (BaseGroupName c) (infraID @ ''-vnet'')
          (infraID @ ''-master-subnet'') w1 = (r2, w2)"
        by (cases "SubnetsClient_Get sdk (BaseGroupName c) (infraID @ ''-vnet'')
          (infraID @ ''-master-subnet'') w1")
      show P
      proof (cases r2)
        case (Inl e2)
        with get e worker ws master assms(3) show P by simp
      next
        case ms: (Inr ms)
        obtain r3 w3 where create: "SecurityGroupsClient_CreateOrUpdate sdk (BaseGroupName c)
            (infraID @ ''-nsg'') (new_group c infraID ports ws ms) w2 = (r3, w3)"
          by (cases "SecurityGroupsClient_CreateOrUpdate sdk (BaseGroupName c)
            (infraID @ ''-nsg'') (new_group c infraID ports ws ms) w2")
        show P
        proof (cases r3)
          case (Inl e3)
          with get e worker ws master ms create assms(4) show P by simp
        next
          case fut: (Inr fut)
          obtain err w4 where "WaitForCompletionRef sdk fut w3 = (err, w4)"
            by (cases "WaitForCompletionRef sdk fut w3")
          with get e worker ws master ms create fut assms(5) show P by simp
        qed
      qed
    qed
  qed
qed


lemma oip_run [case_names found worker_fails master_fails create_fails created]:
  assumes "\<And>g w. SecurityGroupsClient_Get sdk (BaseGroupName c) (infraID @ ''-nsg'') (cloud s)
             = (Inr g, w) \<Longrightarrow>
           openInternalPorts sdk c infraID ports rep s =
             (None, s\<lparr>cloud := w,
                trace := trace s @ [GetGroup (BaseGroupName c) (infraID @ ''-nsg'') (Inr g)]\<rparr>)
           \<Longrightarrow> P"
    and "\<And>e w e1 w1.
           SecurityGroupsClient_Get sdk (BaseGroupName c) (infraID @ ''-nsg'') (cloud s)
             = (Inl e, w) \<Longrightarrow>
           SubnetsClient_Get sdk (BaseGroupName c) (infraID @ ''-vnet'')
             (infraID @ ''-worker-subnet'') w = (Inl e1, w1) \<Longrightarrow>
           openInternalPorts sdk c infraID ports rep s =
             (Some (Wrapped (Wrapped e1 ''error getting the subnet %q'' [AError e1])
                ''failed to retrieve subnet %q'' [AString (infraID @ ''-worker-subnet'')]),
              s\<lparr>cloud := w1,
                trace := trace s @
                  [GetGroup (BaseGroupName c) (infraID @ ''-nsg'') (Inl e),
                   GetSubnet (BaseGroupName c) (infraID @ ''-vnet'')
                     (infraID @ ''-worker-subnet'') (Inl e1)]\<rparr>)
           \<Longrightarrow> P"
    and "\<And>e w ws w1 e2 w2.
           SecurityGroupsClient_Get sdk (BaseGroupName c) (infraID @ ''-nsg'') (cloud s)
             = (Inl e, w) \<Longrightarrow>
           SubnetsClient_Get sdk (BaseGroupName c) (infraID @ ''-vnet'')
             (infraID @ ''-worker-subnet'') w = (Inr ws, w1) \<Longrightarrow>
           SubnetsClient_Get sdk (BaseGroupName c) (infraID @ ''-vnet'')
             (infraID @ ''-master-subnet'') w1 = (Inl e2, w2) \<Longrightarrow>
           openInternalPorts sdk c infraID ports rep s =
             (Some (Wrapped (Wrapped e2 ''error getting the subnet %q'' [AError e2])
                ''failed to retrieve subnet %q'' [AString (infraID @ ''-master-subnet'')]),
              s\<lparr>cloud := w2,
                trace := trace s @
                  [GetGroup (BaseGroupName c) (infraID @ ''-nsg'') (Inl e),
                   GetSubnet (BaseGroupName c) (infraID @ ''-vnet'')
                     (infraID @ ''-worker-subnet'') (Inr ws),
                   GetSubnet (BaseGroupName c) (infraID @ ''-vnet'')
                     (infraID @ ''-master-subnet'') (Inl e2)]\<rparr>)
           \<Longrightarrow> P"
    and "\<And>e w ws w1 ms w2 e3 w3.
           SecurityGroupsClient_Get sdk (BaseGroupName c) (infraID @ ''-nsg'') (cloud s)
             = (Inl e, w) \<Longrightarrow>
           SubnetsClient_Get sdk (BaseGroupName c) (infraID @ ''-vnet'')
             (infraID @ ''-worker-subnet'') w = (Inr ws, w1) \<Longrightarrow>
           SubnetsClient_Get sdk (BaseGroupName c) (infraID @ ''-vnet'')
             (infraID @ ''-master-subnet'') w1 = (Inr ms, w2) \<Longrightarrow>
           openInternalPorts sdk c infraID ports rep s =
             (Some (Wrapped e3 ''creating security group %q failed''
                [AString (infraID @ ''-nsg'')]),
              s\<lparr>cloud := w3,
                trace := trace s @ lookups c infraID rep e ws ms @
                  [CreateOrUpdateGroup (BaseGroupName c) (infraID @ ''-nsg'')
                     (new_group c infraID ports ws ms) (Inl e3)]\<rparr>)
           \<Longrightarrow> P"
    and "\<And>e w ws w1 ms w2 fut err w4.
           SecurityGroupsClient_Get sdk (BaseGroupName c) (infraID @ ''-nsg'') (cloud s)
             = (Inl e, w) \<Longrightarrow>
           SubnetsClient_Get sdk (BaseGroupName c) (infraID @ ''-vnet'')
             (infraID @ ''-worker-subnet'') w = (Inr ws, w1) \<Longrightarrow>
           SubnetsClient_Get sdk (BaseGroupName c) (infraID @ ''-vnet'')
             (infraID @ ''-master-subnet'') w1 = (Inr ms, w2) \<Longrightarrow>
           openInternalPorts sdk c infraID ports rep s =
             (errors_Wrapf err ''Error creating  security group %v ''
                [AString (infraID @ ''-nsg'')],
              s\<lparr>cloud := w4,
                trace := trace s @ lookups c infraID rep e ws ms @
                  [CreateOrUpdateGroup (BaseGroupName c) (infraID @ ''-nsg'')
                     (new_group c infraID ports ws ms) (Inr fut),
                   Wait fut err]\<rparr>)
           \<Longrightarrow> P"
  shows P
proof (cases rule: oip_cases [where sdk=sdk and c=c and infraID=infraID and s=s and ports=ports])
  case found
  from assms(1) [OF found oip_found [OF found]] show P .
next
  case worker_fails
  from assms(2) [OF worker_fails oip_worker_fails [OF worker_fails]] show P .
next
  case master_fails
  from assms(3) [OF master_fails oip_master_fails [OF master_fails]] show P .
next
  case create_fails
  from assms(4) [OF create_fails(1-3) oip_create_fails [OF create_fails]] show P .
next
  case created
  from assms(5) [OF created(1-3) oip_created [OF created]] show P .
qed

section \<open>The paths of removeInternalFirewallRules\<close>

lemmas rif_defs = removeInternalFirewallRules_def run_defs internalSecurityGroupSuffix_def

lemma rif_get_fails:
  "SecurityGroupsClient_Get sdk (BaseGroupName c) (infraID @ ''-nsg'') (cloud s) = (Inl e, w) \<Longrightarrow>
   removeInternalFirewallRules sdk c infraID s =
     (Returns (Some (Wrapped e ''error getting the securitygroup %q''
        [AString (infraID @ ''-nsg'')])),
      s\<lparr>cloud := w,
        trace := trace s @ [GetGroup (BaseGroupName c) (infraID @ ''-nsg'') (Inl e)]\<rparr>)"
  by (simp add: rif_defs)

lemma rif_panics:
  "SecurityGroupsClient_Get sdk (BaseGroupName c) (infraID @ ''-nsg'') (cloud s) = (Inr g, w) \<Longrightarrow>
   sg_properties g = None \<Longrightarrow>
   removeInternalFirewallRules sdk c infraID s =
     (Panics,
      s\<lparr>cloud := w,
        trace := trace s @ [GetGroup (BaseGroupName c) (infraID @ ''-nsg'') (Inr g)]\<rparr>)"
  by (simp add: rif_defs)

lemma rif_update_fails:
  "SecurityGroupsClient_Get sdk (BaseGroupName c) (infraID @ ''-nsg'') (cloud s) = (Inr g, w) \<Longrightarrow>
   sg_properties g = Some p \<Longrightarrow>
   SecurityGroupsClient_CreateOrUpdate sdk (BaseGroupName c) (infraID @ ''-nsg'') (detached g p) w
     = (Inl e, w1) \<Longrightarrow>
   removeInternalFirewallRules sdk c infraID s =
     (Returns (Some (Wrapped e ''removing security group %q from subnets failed''
        [AString (infraID @ ''-nsg'')])),
      s\<lparr>cloud := w1,
        trace := trace s @
          [GetGroup (BaseGroupName c) (infraID @ ''-nsg'') (Inr g),
           CreateOrUpdateGroup (BaseGroupName c) (infraID @ ''-nsg'') (detached g p) (Inl e)]\<rparr>)"
  by (simp add: rif_defs)

lemma rif_update_wait_fails:
  "SecurityGroupsClient_Get sdk (BaseGroupName c) (infraID @ ''-nsg'') (cloud s) = (Inr g, w) \<Longrightarrow>
   sg_properties g = Some p \<Longrightarrow>
   SecurityGroupsClient_CreateOrUpdate sdk (BaseGroupName c) (infraID @ ''-nsg'') (detached g p) w
     = (Inr fu, w1) \<Longrightarrow>
   WaitForCompletionRef sdk fu w1 = (Some e, w2) \<Longrightarrow>
   removeInternalFirewallRules sdk c infraID s =
     (Returns (Some (Wrapped e ''waiting for security group  %q to be updated failed''
        [AString (infraID @ ''-nsg'')])),
      s\<lparr>cloud := w2,
        trace := trace s @
          [GetGroup (BaseGroupName c) (infraID @ ''-nsg'') (Inr g),
           CreateOrUpdateGroup (BaseGroupName c) (infraID @ ''-nsg'') (detached g p) (Inr fu),
           Wait fu (Some e)]\<rparr>)"
  by (simp add: rif_defs)

lemma rif_delete_fails:
  "SecurityGroupsClient_Get sdk (BaseGroupName c) (infraID @ ''-nsg'') (cloud s) = (Inr g, w) \<Longrightarrow>
   sg_properties g = Some p \<Longrightarrow>
   SecurityGroupsClient_CreateOrUpdate sdk (BaseGroupName c) (infraID @ ''-nsg'') (detached g p) w
     = (Inr fu, w1) \<Longrightarrow>
   WaitForCompletionRef sdk fu w1 = (None, w2) \<Longrightarrow>
   SecurityGroupsClient_Delete sdk (BaseGroupName c) (infraID @ ''-nsg'') w2 = (Inl e, w3) \<Longrightarrow>
   removeInternalFirewallRules sdk c infraID s =
     (Returns (Some (Wrapped e ''deleting security group %q failed''
        [AString (infraID @ ''-nsg'')])),
      s\<lparr>cloud := w3,
        trace := trace s @
          [GetGroup (BaseGroupName c) (infraID @ ''-nsg'') (Inr g),
           CreateOrUpdateGroup (BaseGroupName c) (infraID @ ''-nsg'') (detached g p) (Inr fu),
           Wait fu None,
           DeleteGroup (BaseGroupName c) (infraID @ ''-nsg'') (Inl e)]\<rparr>)"
  by (simp add: rif_defs)

lemma rif_deleted:
  "SecurityGroupsClient_Get sdk (BaseGroupName c) (infraID @ ''-nsg'') (cloud s) = (Inr g, w) \<Longrightarrow>
   sg_properties g = Some p \<Longrightarrow>
   SecurityGroupsClient_CreateOrUpdate sdk (BaseGroupName c) (infraID @ ''-nsg'') (detached g p) w
     = (Inr fu, w1) \<Longrightarrow>
   WaitForCompletionRef sdk fu w1 = (None, w2) \<Longrightarrow>
   SecurityGroupsClient_Delete sdk (BaseGroupName c) (infraID @ ''-nsg'') w2 = (Inr fd, w3) \<Longrightarrow>
   WaitForCompletionRef sdk fd w3 = (err, w4) \<Longrightarrow>
   removeInternalFirewallRules sdk c infraID s =
     (Returns (errors_Wrapf err ''waiting for security group  %q to be deleted failed''
        [AString (infraID @ ''-nsg'')]),
      s\<lparr>cloud := w4,
        trace := trace s @
          [GetGroup (BaseGroupName c) (infraID @ ''-nsg'') (Inr g),
           CreateOrUpdateGroup (BaseGroupName c) (infraID @ ''-nsg'') (detached g p) (Inr fu),
           Wait fu None,
           DeleteGroup (BaseGroupName c) (infraID @ ''-nsg'') (Inr fd),
           Wait fd err]\<rparr>)"
  by (cases err) (simp_all add: rif_defs)

lemma rif_cases [case_names get_fails panics update_fails update_wait_fails delete_fails deleted]:
  assumes "\<And>e w. SecurityGroupsClient_Get sdk (BaseGroupName c) (infraID @ ''-nsg'') (cloud s)
             = (Inl e, w) \<Longrightarrow> P"
    and "\<And>g w. SecurityGroupsClient_Get sdk (BaseGroupName c) (infraID @ ''-nsg'') (cloud s)
             = (Inr g, w) \<Longrightarrow> sg_properties g = None \<Longrightarrow> P"
    and "\<And>g w p e w1.
           SecurityGroupsClient_Get sdk (BaseGroupName c) (infraID @ ''-nsg'') (cloud s)
             = (Inr g, w) \<Longrightarrow> sg_properties g = Some p \<Longrightarrow>
           SecurityGroupsClient_CreateOrUpdate sdk (BaseGroupName c) (infraID @ ''-nsg'')
             (detached g p) w = (Inl e, w1) \<Longrightarrow> P"
    and "\<And>g w p fu w1 e w2.
           SecurityGroupsClient_Get sdk (BaseGroupName c) (infraID @ ''-nsg'') (cloud s)
             = (Inr g, w) \<Longrightarrow> sg_properties g = Some p \<Longrightarrow>
           SecurityGroupsClient_CreateOrUpdate sdk (BaseGroupName c) (infraID @ ''-nsg'')
             (detached g p) w = (Inr fu, w1) \<Longrightarrow>
           WaitForCompletionRef sdk fu w1 = (Some e, w2) \<Longrightarrow> P"
    and "\<And>g w p fu w1 w2 e w3.
           SecurityGroupsClient_Get sdk (BaseGroupName c) (infraID @ ''-nsg'') (cloud s)
             = (Inr g, w) \<Longrightarrow> sg_properties g = Some p \<Longrightarrow>
           SecurityGroupsClient_CreateOrUpdate sdk (BaseGroupName c) (infraID @ ''-nsg'')
             (detached g p) w = (Inr fu, w1) \<Longrightarrow>
           WaitForCompletionRef sdk fu w1 = (None, w2) \<Longrightarrow>
           SecurityGroupsClient_Delete sdk (BaseGroupName c) (infraID @ ''-nsg'') w2
             = (Inl e, w3) \<Longrightarrow> P"
    and "\<And>g w p fu w1 w2 fd w3 err w4.
           SecurityGroupsClient_Get sdk (BaseGroupName c) (infraID @ ''-nsg'') (cloud s)
             = (Inr g, w) \<Longrightarrow> sg_properties g = Some p \<Longrightarrow>
           SecurityGroupsClient_CreateOrUpdate sdk (BaseGroupName c) (infraID @ ''-nsg'')
             (detached g p) w = (Inr fu, w1) \<Longrightarrow>
           WaitForCompletionRef sdk fu w1 = (None, w2) \<Longrightarrow>
           SecurityGroupsClient_Delete sdk (BaseGroupName c) (infraID @ ''-nsg'') w2
             = (Inr fd, w3) \<Longrightarrow>
           WaitForCompletionRef sdk fd w3 = (err, w4) \<Longrightarrow> P"
  shows P
proof -
  obtain r w where get: "SecurityGroupsClient_Get sdk (BaseGroupName c) (infraID @ ''-nsg'')
      (cloud s) = (r, w)"
    by (cases "SecurityGroupsClient_Get sdk (BaseGroupName c) (infraID @ ''-nsg'') (cloud s)")
  show P
  proof (cases r)
    case (Inl e)
    with get assms(1) show P by simp
  next
    case g: (Inr g)
    show P
    proof (cases "sg_properties g")
      case None
      with get g assms(2) show P by simp
    next
      case p: (Some p)
      obtain r1 w1 where upd: "SecurityGroupsClient_CreateOrUpdate sdk (BaseGroupName c)
          (infraID @ ''-nsg'') (detached g p) w = (r1, w1)"
        by (cases "SecurityGroupsClient_CreateOrUpdate sdk (BaseGroupName c)
          (infraID @ ''-nsg'') (detached g p) w")
      show P
      proof (cases r1)
        case (Inl e)
        with get g p upd assms(3) show P by simp
      next
        case fu: (Inr fu)
        obtain r2 w2 where wait1: "WaitForCompletionRef sdk fu w1 = (r2, w2)"
          by (cases "WaitForCompletionRef sdk fu w1")
        show P
        proof (cases r2)
          case (Some e)
          with get g p upd fu wait1 assms(4) show P by simp
        next
          case none: None
          obtain r3 w3 where del: "SecurityGroupsClient_Delete sdk (BaseGroupName c)
              (infraID @ ''-nsg'') w2 = (r3, w3)"
            by (cases "SecurityGroupsClient_Delete sdk (BaseGroupName c) (infraID @ ''-nsg'') w2")
          show P
          proof (cases r3)
            case (Inl e)
            with get g p upd fu wait1 none del assms(5) show P by simp
          next
            case fd: (Inr fd)
            obtain err w4 where "WaitForCompletionRef sdk fd w3 = (err, w4)"
              by (cases "WaitForCompletionRef sdk fd w3")
            with get g p upd fu wait1 none del fd assms(6) show P by simp
          qed
        qed
      qed
    qed
  qed
qed


lemma rif_run [case_names get_fails panics update_fails update_wait_fails delete_fails deleted]:
  assumes "\<And>e w.
           SecurityGroupsClient_Get sdk (BaseGroupName c) (infraID @ ''-nsg'') (cloud s)
             = (Inl e, w) \<Longrightarrow>
           removeInternalFirewallRules sdk c infraID s =
             (Returns (Some (Wrapped e ''error getting the securitygroup %q''
                [AString (infraID @ ''-nsg'')])),
              s\<lparr>cloud := w,
                trace := trace s @
                  [GetGroup (BaseGroupName c) (infraID @ ''-nsg'') (Inl e)]\<rparr>)
           \<Longrightarrow> P"
    and "\<And>g w.
           SecurityGroupsClient_Get sdk (BaseGroupName c) (infraID @ ''-nsg'') (cloud s)
             = (Inr g, w) \<Longrightarrow>
           sg_properties g = None \<Longrightarrow>
           removeInternalFirewallRules sdk c infraID s =
             (Panics,
              s\<lparr>cloud := w,
                trace := trace s @
                  [GetGroup (BaseGroupName c) (infraID @ ''-nsg'') (Inr g)]\<rparr>)
           \<Longrightarrow> P"
    and "\<And>g w p e w1.
           SecurityGroupsClient_Get sdk (BaseGroupName c) (infraID @ ''-nsg'') (cloud s)
             = (Inr g, w) \<Longrightarrow>
           sg_properties g = Some p \<Longrightarrow>
           SecurityGroupsClient_CreateOrUpdate sdk (BaseGroupName c) (infraID @ ''-nsg'')
             (detached g p) w = (Inl e, w1) \<Longrightarrow>
           removeInternalFirewallRules sdk c infraID s =
             (Returns (Some (Wrapped e ''removing security group %q from subnets failed''
                [AString (infraID @ ''-nsg'')])),
              s\<lparr>cloud := w1,
                trace := trace s @
                  [GetGroup (BaseGroupName c) (infraID @ ''-nsg'') (Inr g),
                   CreateOrUpdateGroup (BaseGroupName c) (infraID @ ''-nsg'') (detached g p)
                     (Inl e)]\<rparr>)
           \<Longrightarrow> P"
    and "\<And>g w p fu w1 e w2.
           SecurityGroupsClient_Get sdk (BaseGroupName c) (infraID @ ''-nsg'') (cloud s)
             = (Inr g, w) \<Longrightarrow>
           sg_properties g = Some p \<Longrightarrow>
           SecurityGroupsClient_CreateOrUpdate sdk (BaseGroupName c) (infraID @ ''-nsg'')
             (detached g p) w = (Inr fu, w1) \<Longrightarrow>
           WaitForCompletionRef sdk fu w1 = (Some e, w2) \<Longrightarrow>
           removeInternalFirewallRules sdk c infraID s =
             (Returns (Some (Wrapped e ''waiting for security group  %q to be updated failed''
                [AString (infraID @ ''-nsg'')])),
              s\<lparr>cloud := w2,
                trace := trace s @
                  [GetGroup (BaseGroupName c) (infraID @ ''-nsg'') (Inr g),
                   CreateOrUpdateGroup (BaseGroupName c) (infraID @ ''-nsg'') (detached g p)
                     (Inr fu),
                   Wait fu (Some e)]\<rparr>)
           \<Longrightarrow> P"
    and "\<And>g w p fu w1 w2 e w3.
           SecurityGroupsClient_Get sdk (BaseGroupName c) (infraID @ ''-nsg'') (cloud s)
             = (Inr g, w) \<Longrightarrow>
           sg_properties g = Some p \<Longrightarrow>
           SecurityGroupsClient_CreateOrUpdate sdk (BaseGroupName c) (infraID @ ''-nsg'')
             (detached g p) w = (Inr fu, w1) \<Longrightarrow>
           WaitForCompletionRef sdk fu w1 = (None, w2) \<Longrightarrow>
           SecurityGroupsClient_Delete sdk (BaseGroupName c) (infraID @ ''-nsg'') w2
             = (Inl e, w3) \<Longrightarrow>
           removeInternalFirewallRules sdk c infraID s =
             (Returns (Some (Wrapped e ''deleting security group %q failed''
                [AString (infraID @ ''-nsg'')])),
              s\<lparr>cloud := w3,
                trace := trace s @
                  [GetGroup (BaseGroupName c) (infraID @ ''-nsg'') (Inr g),
                   CreateOrUpdateGroup (BaseGroupName c) (infraID @ ''-nsg'') (detached g p)
                     (Inr fu),
                   Wait fu None,
                   DeleteGroup (BaseGroupName c) (infraID @ ''-nsg'') (Inl e)]\<rparr>)
           \<Longrightarrow> P"
    and "\<And>g w p fu w1 w2 fd w3 err w4.
           SecurityGroupsClient_Get sdk (BaseGroupName c) (infraID @ ''-nsg'') (cloud s)
             = (Inr g, w) \<Longrightarrow>
           sg_properties g = Some p \<Longrightarrow>
           SecurityGroupsClient_CreateOrUpdate sdk (BaseGroupName c) (infraID @ ''-nsg'')
             (detached g p) w = (Inr fu, w1) \<Longrightarrow>
           WaitForCompletionRef sdk fu w1 = (None, w2) \<Longrightarrow>
           SecurityGroupsClient_Delete sdk (BaseGroupName c) (infraID @ ''-nsg'') w2
             = (Inr fd, w3) \<Longrightarrow>
           WaitForCompletionRef sdk fd w3 = (err, w4) \<Longrightarrow>
           removeInternalFirewallRules sdk c infraID s =
             (Returns (errors_Wrapf err ''waiting for security group  %q to be deleted failed''
                [AString (infraID @ ''-nsg'')]),
              s\<lparr>cloud := w4,
                trace := trace s @
                  [GetGroup (BaseGroupName c) (infraID @ ''-nsg'') (Inr g),
                   CreateOrUpdateGroup (BaseGroupName c) (infraID @ ''-nsg'') (detached g p)
                     (Inr fu),
                   Wait fu None,
                   DeleteGroup (BaseGroupName c) (infraID @ ''-nsg'') (Inr fd),
                   Wait fd err]\<rparr>)
           \<Longrightarrow> P"
  shows P
proof (cases rule: rif_cases [where sdk=sdk and c=c and infraID=infraID and s=s])
  case get_fails
  from assms(1) [OF get_fails rif_get_fails [OF get_fails]] show P .
next
  case panics
  from assms(2) [OF panics rif_panics [OF panics]] show P .
next
  case update_fails
  from assms(3) [OF update_fails rif_update_fails [OF update_fails]] show P .
next
  case update_wait_fails
  from assms(4) [OF update_wait_fails rif_update_wait_fails [OF update_wait_fails]]
  show P .
next
  case delete_fails
  from assms(5) [OF delete_fails rif_delete_fails [OF delete_fails]] show P .
next
  case deleted
  from assms(6) [OF deleted rif_deleted [OF deleted]] show P .
qed

section \<open>formatPorts\<close>

lemma formatPorts_loop_map: "formatPorts_loop ports portStrs = portStrs @ map sprintf_port ports"
  by (induction ports arbitrary: portStrs) auto

text \<open>
  C10. \<open>formatPorts\<close> renders each port spec as its port number in decimal, a slash and
  its protocol, keeps the order of the list and puts \<open>", "\<close> between neighbours; the empty
  list gives the empty string. When \<open>PrepareForSubmariner\<close> returns \<open>nil\<close>, the last thing
  it did was to report \<open>Succeeded\<close> with this string as the argument of the message.
\<close>

theorem formatPorts_joined:
  "formatPorts [] = [] \<and>
   formatPorts [p] = decimal (unat (Port p)) @ ''/'' @ Protocol p \<and>
   formatPorts (p # q # ps) =
     (decimal (unat (Port p)) @ ''/'' @ Protocol p) @ '', '' @ formatPorts (q # ps) \<and>
   formatPorts ports =
     Join (map (\<lambda>port. decimal (unat (Port port)) @ ''/'' @ Protocol port) ports) '', '' \<and>
   (fst (PrepareForSubmariner sdk steps az r' input r s) = Returns None \<longrightarrow>
    last (trace (snd (PrepareForSubmariner sdk steps az r' input r s))) =
      Report r (Succeeded
        (Lit ''Opened internal ports %q for intra-cluster communications on RHOS'')
        [AString (formatPorts (InternalPorts input))]))"
proof -
  have loop: "formatPorts xs = Join (map sprintf_port xs) '', ''" for xs
    by (simp add: formatPorts_def formatPorts_loop_map)
  have msg: "fst (PrepareForSubmariner sdk steps az r' input r s) = Returns None \<longrightarrow>
    last (trace (snd (PrepareForSubmariner sdk steps az r' input r s))) =
      Report r (Succeeded
        (Lit ''Opened internal ports %q for intra-cluster communications on RHOS'')
        [AString (formatPorts (InternalPorts input))])"
    by (auto simp: PrepareForSubmariner_def callStep_def reporter_call_def emit_def Let_def
        split: prod.splits outcome.splits option.splits)
  have sp: "sprintf_port = (\<lambda>port. decimal (unat (Port port)) @ ''/'' @ Protocol port)"
    by (rule ext) (simp add: sprintf_port_def)
  have a: "formatPorts [] = []"
    and b: "formatPorts [p] = decimal (unat (Port p)) @ ''/'' @ Protocol p"
    and c: "formatPorts (p # q # ps) =
     (decimal (unat (Port p)) @ ''/'' @ Protocol p) @ '', '' @ formatPorts (q # ps)"
    by (simp_all add: loop sprintf_port_def)
  have d: "formatPorts ports =
     Join (map (\<lambda>port. decimal (unat (Port port)) @ ''/'' @ Protocol port) ports) '', ''"
    unfolding loop sp ..
  from a b c d msg show ?thesis by blast
qed

theorem formatPorts_joined_witness:
  "fst (PrepareForSubmariner sim_sdk sim_steps sim_az 1 sim_input 0 (sim_start sim_fresh))
     = Returns None \<and>
   last (trace (snd (PrepareForSubmariner sim_sdk sim_steps sim_az 1 sim_input 0
     (sim_start sim_fresh)))) =
     Report 0 (Succeeded
        (Lit ''Opened internal ports %q for intra-cluster communications on RHOS'')
        [AString ''4800/udp, 8080/tcp''])"
proof -
  have run: "fst (PrepareForSubmariner sim_sdk sim_steps sim_az 1 sim_input 0
      (sim_start sim_fresh)) = Returns None"
    by (simp add: func_defs run_defs sim_defs)
  have ports: "formatPorts (InternalPorts sim_input) = ''4800/udp, 8080/tcp''"
    by (simp add: func_defs sim_defs)
  from formatPorts_joined [of _ _ _ _ sim_sdk sim_steps sim_az 1 sim_input 0 "sim_start sim_fresh"]
    run ports show ?thesis by simp
qed

section \<open>openInternalPorts\<close>

text \<open>
  C9. \<open>checkIfSecurityGroupPresent\<close> answers true exactly when \<open>Get\<close> returned a group and
  no error. Whatever the error of \<open>Get\<close> is, \<open>openInternalPorts\<close> goes on as if the group
  were absent: its next call is the lookup of the worker subnet, and when both subnets
  are found it issues \<open>CreateOrUpdate\<close> for the group.
\<close>

theorem checkIfSecurityGroupPresent_any_error:
  "fst (checkIfSecurityGroupPresent sdk groupName baseGroupName s) =
     (\<exists>g. fst (SecurityGroupsClient_Get sdk baseGroupName groupName (cloud s)) = Inr g) \<and>
   (SecurityGroupsClient_Get sdk (BaseGroupName c) (infraID @ ''-nsg'') (cloud s) = (Inl e, w) \<longrightarrow>
      (\<exists>res evs. trace (snd (openInternalPorts sdk c infraID ports rep s)) =
         trace s @ GetGroup (BaseGroupName c) (infraID @ ''-nsg'') (Inl e) #
           GetSubnet (BaseGroupName c) (infraID @ ''-vnet'') (infraID @ ''-worker-subnet'') res #
           evs) \<and>
      (\<forall>ws w1 ms w2.
         SubnetsClient_Get sdk (BaseGroupName c) (infraID @ ''-vnet'')
           (infraID @ ''-worker-subnet'') w = (Inr ws, w1) \<longrightarrow>
         SubnetsClient_Get sdk (BaseGroupName c) (infraID @ ''-vnet'')
           (infraID @ ''-master-subnet'') w1 = (Inr ms, w2) \<longrightarrow>
         (\<exists>res evs. trace (snd (openInternalPorts sdk c infraID ports rep s)) =
            trace s @ lookups c infraID rep e ws ms @
              CreateOrUpdateGroup (BaseGroupName c) (infraID @ ''-nsg'')
                (new_group c infraID ports ws ms) res # evs)))"
proof (intro conjI impI allI)
  show "fst (checkIfSecurityGroupPresent sdk groupName baseGroupName s) =
     (\<exists>g. fst (SecurityGroupsClient_Get sdk baseGroupName groupName (cloud s)) = Inr g)"
    by (auto simp: checkIfSecurityGroupPresent_def sgGet_def split: prod.splits sum.splits)
next
  assume get: "SecurityGroupsClient_Get sdk (BaseGroupName c) (infraID @ ''-nsg'') (cloud s)
    = (Inl e, w)"
  show "\<exists>res evs. trace (snd (openInternalPorts sdk c infraID ports rep s)) =
         trace s @ GetGroup (BaseGroupName c) (infraID @ ''-nsg'') (Inl e) #
           GetSubnet (BaseGroupName c) (infraID @ ''-vnet'') (infraID @ ''-worker-subnet'') res #
           evs"
    by (cases rule: oip_run [where sdk=sdk and c=c and infraID=infraID and s=s and ports=ports
          and rep=rep]) (use get in auto)
next
  fix ws w1 ms w2
  assume get: "SecurityGroupsClient_Get sdk (BaseGroupName c) (infraID @ ''-nsg'') (cloud s)
    = (Inl e, w)"
    and worker: "SubnetsClient_Get sdk (BaseGroupName c) (infraID @ ''-vnet'')
           (infraID @ ''-worker-subnet'') w = (Inr ws, w1)"
    and master: "SubnetsClient_Get sdk (BaseGroupName c) (infraID @ ''-vnet'')
           (infraID @ ''-master-subnet'') w1 = (Inr ms, w2)"
  show "\<exists>res evs. trace (snd (openInternalPorts sdk c infraID ports rep s)) =
            trace s @ lookups c infraID rep e ws ms @
              CreateOrUpdateGroup (BaseGroupName c) (infraID @ ''-nsg'')
                (new_group c infraID ports ws ms) res # evs"
    by (cases rule: oip_run [where sdk=sdk and c=c and infraID=infraID and s=s and ports=ports
          and rep=rep]) (use get worker master in auto)
qed


theorem checkIfSecurityGroupPresent_any_error_witness:
  "map_of (sim_groups sim_flaky) (''rg'', ''c1-nsg'') = Some sim_group \<and>
   SecurityGroupsClient_Get sim_sdk ''rg'' ''c1-nsg'' sim_flaky
     = (Inl (SdkError ''Timeout''), sim_flaky) \<and>
   \<not> fst (checkIfSecurityGroupPresent sim_sdk ''c1-nsg'' ''rg'' (sim_start sim_flaky)) \<and>
   (\<exists>res evs. trace (snd (openInternalPorts sim_sdk sim_az ''c1'' sim_ports 1
       (sim_start sim_flaky))) =
     lookups sim_az ''c1'' 1 (SdkError ''Timeout'') sim_worker sim_master @
       CreateOrUpdateGroup ''rg'' ''c1-nsg''
         (new_group sim_az ''c1'' sim_ports sim_worker sim_master) res # evs)"
proof -
  have present: "map_of (sim_groups sim_flaky) (''rg'', ''c1-nsg'') = Some sim_group"
    by (simp add: sim_defs)
  have get: "SecurityGroupsClient_Get sim_sdk (BaseGroupName sim_az) (''c1'' @ ''-nsg'')
      (cloud (sim_start sim_flaky)) = (Inl (SdkError ''Timeout''), sim_flaky)"
    by (simp add: sim_defs)
  have worker: "SubnetsClient_Get sim_sdk (BaseGroupName sim_az) (''c1'' @ ''-vnet'')
      (''c1'' @ ''-worker-subnet'') sim_flaky = (Inr sim_worker, sim_flaky)"
    by (simp add: sim_defs)
  have master: "SubnetsClient_Get sim_sdk (BaseGroupName sim_az) (''c1'' @ ''-vnet'')
      (''c1'' @ ''-master-subnet'') sim_flaky = (Inr sim_master, sim_flaky)"
    by (simp add: sim_defs)
  have names: "BaseGroupName sim_az = ''rg''" "trace (sim_start sim_flaky) = []"
    "cloud (sim_start sim_flaky) = sim_flaky"
    by (simp_all add: sim_defs)
  note inst = checkIfSecurityGroupPresent_any_error [where sdk=sim_sdk and groupName="''c1-nsg''"
      and baseGroupName="''rg''" and s="sim_start sim_flaky" and c=sim_az and infraID="''c1''"
      and e="SdkError ''Timeout''" and w=sim_flaky and ports=sim_ports and rep=1]
  from inst get have absent:
    "\<not> fst (checkIfSecurityGroupPresent sim_sdk ''c1-nsg'' ''rg'' (sim_start sim_flaky))"
    by (simp add: names)
  from inst get worker master have
    "\<exists>res evs. trace (snd (openInternalPorts sim_sdk sim_az ''c1'' sim_ports 1
       (sim_start sim_flaky))) =
     trace (sim_start sim_flaky) @ lookups sim_az ''c1'' 1 (SdkError ''Timeout'') sim_worker sim_master @
       CreateOrUpdateGroup (BaseGroupName sim_az) (''c1'' @ ''-nsg'')
         (new_group sim_az ''c1'' sim_ports sim_worker sim_master) res # evs"
    by blast
  with present get absent show ?thesis by (simp add: names)
qed

section \<open>The paths of PrepareForSubmariner and CleanupAfterSubmariner\<close>

lemmas prep_defs = PrepareForSubmariner_def forntendIPConfigurationName_def run_defs

lemma prep_gw_stops:
  "openGWPorts steps az (InfraID az) (InternalPorts input) (cloud s) = (x, w1) \<Longrightarrow>
   x \<noteq> Returns None \<Longrightarrow>
   PrepareForSubmariner sdk steps az r' input r s =
     (x, s\<lparr>cloud := w1,
        trace := trace s @ [Report r prepare_Started, Step (gw_call az input) x] @
          verdicts r (prepare_Succeeded (InternalPorts input)) x\<rparr>)"
  by (cases x) (auto simp: prep_defs split: option.splits)

lemma prep_lb_stops:
  "openGWPorts steps az (InfraID az) (InternalPorts input) (cloud s) = (Returns None, w1) \<Longrightarrow>
   createSubmarinerLoadBalancingRules steps az (InfraID az) ''public-lb-ip-v4''
     (InternalPorts input) w1 = (x, w2) \<Longrightarrow>
   x \<noteq> Returns None \<Longrightarrow>
   PrepareForSubmariner sdk steps az r' input r s =
     (x, s\<lparr>cloud := w2,
        trace := trace s @ [Report r prepare_Started, Step (gw_call az input) (Returns None),
          Step (lb_call az input) x] @ verdicts r (prepare_Succeeded (InternalPorts input)) x\<rparr>)"
  by (cases x) (auto simp: prep_defs split: option.splits)

lemma prep_internal:
  "openGWPorts steps az (InfraID az) (InternalPorts input) (cloud s) = (Returns None, w1) \<Longrightarrow>
   createSubmarinerLoadBalancingRules steps az (InfraID az) ''public-lb-ip-v4''
     (InternalPorts input) w1 = (Returns None, w2) \<Longrightarrow>
   openInternalPorts sdk az (InfraID az) (InternalPorts input) r'
     (s\<lparr>cloud := w2,
        trace := trace s @ [Report r prepare_Started, Step (gw_call az input) (Returns None),
          Step (lb_call az input) (Returns None)]\<rparr>) = (err, s3) \<Longrightarrow>
   PrepareForSubmariner sdk steps az r' input r s =
     (Returns err,
      s3\<lparr>trace := trace s3 @ Step (internal_call az input) (Returns err) #
          verdicts r (prepare_Succeeded (InternalPorts input)) (Returns err)\<rparr>)"
  by (cases err) (simp_all add: prep_defs)

lemmas clean_defs = CleanupAfterSubmariner_def run_defs



lemma clean_internal:
  "removeGWFirewallRules steps az (InfraID az) (cloud s) = (Returns None, w1) \<Longrightarrow>
   deleteSubmarinerLoadBalancingRules steps az (InfraID az) w1 = (Returns None, w2) \<Longrightarrow>
   removeInternalFirewallRules sdk az (InfraID az)
     (s\<lparr>cloud := w2,
        trace := trace s @ [Report r cleanup_Started, Step (gw_removal az) (Returns None),
          Step (lb_removal az) (Returns None)]\<rparr>) = (x, s3) \<Longrightarrow>
   CleanupAfterSubmariner sdk steps az r s =
     (x, s3\<lparr>trace := trace s3 @ Step (internal_removal az) x #
          verdicts r cleanup_Succeeded x\<rparr>)"
  by (cases x) (auto simp: clean_defs split: option.splits)








section \<open>Reporting\<close>




text \<open>
  The reports of \<open>openInternalPorts\<close> go to the reporter it is handed. Were that the
  reporter of \<open>PrepareForSubmariner\<close> itself, a call that creates the group would report
  to it a second \<open>Started\<close> and, before the group is created, a first \<open>Succeeded\<close>.
\<close>

lemma prepare_same_reporter:
  "reports_of 0 (trace (snd (PrepareForSubmariner sim_sdk sim_steps sim_az 0 sim_input (0::nat)
     (sim_start sim_fresh)))) =
     [prepare_Started,
      Started (Sprintf ''The subnets are masterSubnet = %v , workerSubnet = %v''
        [ASubnetPtr sim_worker, ASubnetPtr sim_master]) [],
      Succeeded (Sprintf ''The subnets %v'' [ASubnetsPtr (Some [sim_worker, sim_master])]) [],
      prepare_Succeeded sim_ports]"
  by (simp add: func_defs run_defs sim_defs)

section \<open>The order of the steps\<close>

text \<open>
  C4. \<open>PrepareForSubmariner\<close> runs \<open>openGWPorts\<close>, then
  \<open>createSubmarinerLoadBalancingRules\<close> on the cloud that the first left, then
  \<open>openInternalPorts\<close> on the cloud that the second left. When a step returns an error,
  that error is reported and returned and nothing of a later step happens: the trace and
  the cloud are those of the steps up to the failing one. The third step begins with the
  lookup of the internal security group.
\<close>

theorem PrepareForSubmariner_order:
  "(openGWPorts steps az (InfraID az) (InternalPorts input) (cloud s) = (Returns (Some e), w1) \<longrightarrow>
      PrepareForSubmariner sdk steps az r' input r s =
        (Returns (Some e),
         s\<lparr>cloud := w1,
           trace := trace s @
             [Report r prepare_Started, Step (gw_call az input) (Returns (Some e)),
              Report r (Failed [e])]\<rparr>)) \<and>
   (openGWPorts steps az (InfraID az) (InternalPorts input) (cloud s) = (Returns None, w1) \<longrightarrow>
    createSubmarinerLoadBalancingRules steps az (InfraID az) ''public-lb-ip-v4''
      (InternalPorts input) w1 = (Returns (Some e), w2) \<longrightarrow>
      PrepareForSubmariner sdk steps az r' input r s =
        (Returns (Some e),
         s\<lparr>cloud := w2,
           trace := trace s @
             [Report r prepare_Started, Step (gw_call az input) (Returns None),
              Step (lb_call az input) (Returns (Some e)), Report r (Failed [e])]\<rparr>)) \<and>
   (openGWPorts steps az (InfraID az) (InternalPorts input) (cloud s) = (Returns None, w1) \<longrightarrow>
    createSubmarinerLoadBalancingRules steps az (InfraID az) ''public-lb-ip-v4''
      (InternalPorts input) w1 = (Returns None, w2) \<longrightarrow>
      (\<exists>err s3 res evs.
         openInternalPorts sdk az (InfraID az) (InternalPorts input) r'
           (s\<lparr>cloud := w2,
              trace := trace s @
                [Report r prepare_Started, Step (gw_call az input) (Returns None),
                 Step (lb_call az input) (Returns None)]\<rparr>) = (err, s3) \<and>
         trace s3 = trace s @
           [Report r prepare_Started, Step (gw_call az input) (Returns None),
            Step (lb_call az input) (Returns None),
            GetGroup (BaseGroupName az) (InfraID az @ ''-nsg'') res] @ evs \<and>
         PrepareForSubmariner sdk steps az r' input r s =
           (Returns err,
            s3\<lparr>trace := trace s3 @
              [Step (internal_call az input) (Returns err),
               Report r (verdict (prepare_Succeeded (InternalPorts input)) err)]\<rparr>)))"
proof (intro conjI impI)
  assume "openGWPorts steps az (InfraID az) (InternalPorts input) (cloud s)
    = (Returns (Some e), w1)"
  from prep_gw_stops [OF this, of sdk r' r]
  show "PrepareForSubmariner sdk steps az r' input r s =
        (Returns (Some e),
         s\<lparr>cloud := w1,
           trace := trace s @
             [Report r prepare_Started, Step (gw_call az input) (Returns (Some e)),
              Report r (Failed [e])]\<rparr>)"
    by simp
next
  assume "openGWPorts steps az (InfraID az) (InternalPorts input) (cloud s) = (Returns None, w1)"
    and "createSubmarinerLoadBalancingRules steps az (InfraID az) ''public-lb-ip-v4''
      (InternalPorts input) w1 = (Returns (Some e), w2)"
  from prep_lb_stops [OF this, of sdk r' r]
  show "PrepareForSubmariner sdk steps az r' input r s =
        (Returns (Some e),
         s\<lparr>cloud := w2,
           trace := trace s @
             [Report r prepare_Started, Step (gw_call az input) (Returns None),
              Step (lb_call az input) (Returns (Some e)), Report r (Failed [e])]\<rparr>)"
    by simp
next
  let ?s2 = "s\<lparr>cloud := w2,
              trace := trace s @
                [Report r prepare_Started, Step (gw_call az input) (Returns None),
                 Step (lb_call az input) (Returns None)]\<rparr>"
  assume steps: "openGWPorts steps az (InfraID az) (InternalPorts input) (cloud s)
      = (Returns None, w1)"
    "createSubmarinerLoadBalancingRules steps az (InfraID az) ''public-lb-ip-v4''
      (InternalPorts input) w1 = (Returns None, w2)"
  obtain err s3 where run:
    "openInternalPorts sdk az (InfraID az) (InternalPorts input) r' ?s2 = (err, s3)"
    by (cases "openInternalPorts sdk az (InfraID az) (InternalPorts input) r' ?s2")
  have "\<exists>res evs. trace s3 = trace ?s2 @
      GetGroup (BaseGroupName az) (InfraID az @ ''-nsg'') res # evs"
    by (cases rule: oip_run [where sdk=sdk and c=az and infraID="InfraID az" and s="?s2"
          and ports="InternalPorts input" and rep=r']) (use run in auto)
  with run prep_internal [OF steps run]
  show "\<exists>err s3 res evs.
         openInternalPorts sdk az (InfraID az) (InternalPorts input) r' ?s2 = (err, s3) \<and>
         trace s3 = trace s @
           [Report r prepare_Started, Step (gw_call az input) (Returns None),
            Step (lb_call az input) (Returns None),
            GetGroup (BaseGroupName az) (InfraID az @ ''-nsg'') res] @ evs \<and>
         PrepareForSubmariner sdk steps az r' input r s =
           (Returns err,
            s3\<lparr>trace := trace s3 @
              [Step (internal_call az input) (Returns err),
               Report r (verdict (prepare_Succeeded (InternalPorts input)) err)]\<rparr>)"
    by auto
qed

theorem PrepareForSubmariner_order_witness:
  "PrepareForSubmariner sim_sdk sim_steps_gw_fails sim_az 1 sim_input 0 (sim_start sim_fresh) =
     (Returns (Some (SdkError ''Forbidden'')),
      \<lparr>cloud = sim_fresh,
       trace = [Report 0 prepare_Started,
                Step (gw_call sim_az sim_input) (Returns (Some (SdkError ''Forbidden''))),
                Report 0 (Failed [SdkError ''Forbidden''])]\<rparr>) \<and>
   PrepareForSubmariner sim_sdk sim_steps_lb_fails sim_az 1 sim_input 0 (sim_start sim_fresh) =
     (Returns (Some (SdkError ''Conflict'')),
      \<lparr>cloud = sim_fresh,
       trace = [Report 0 prepare_Started,
                Step (gw_call sim_az sim_input) (Returns None),
                Step (lb_call sim_az sim_input) (Returns (Some (SdkError ''Conflict''))),
                Report 0 (Failed [SdkError ''Conflict''])]\<rparr>) \<and>
   fst (PrepareForSubmariner sim_sdk sim_steps sim_az 1 sim_input 0 (sim_start sim_fresh))
     = Returns None"
proof -
  have gw: "openGWPorts sim_steps_gw_fails sim_az (InfraID sim_az) (InternalPorts sim_input)
      (cloud (sim_start sim_fresh)) = (Returns (Some (SdkError ''Forbidden'')), sim_fresh)"
    by (simp add: sim_defs)
  have gw_ok: "openGWPorts sim_steps_lb_fails sim_az (InfraID sim_az) (InternalPorts sim_input)
      (cloud (sim_start sim_fresh)) = (Returns None, sim_fresh)"
    by (simp add: sim_defs)
  have lb: "createSubmarinerLoadBalancingRules sim_steps_lb_fails sim_az (InfraID sim_az)
      ''public-lb-ip-v4'' (InternalPorts sim_input) sim_fresh
        = (Returns (Some (SdkError ''Conflict'')), sim_fresh)"
    by (simp add: sim_defs)
  have gw_ok': "openGWPorts sim_steps sim_az (InfraID sim_az) (InternalPorts sim_input)
      (cloud (sim_start sim_fresh)) = (Returns None, sim_fresh)"
    by (simp add: sim_defs)
  have lb_ok: "createSubmarinerLoadBalancingRules sim_steps sim_az (InfraID sim_az)
      ''public-lb-ip-v4'' (InternalPorts sim_input) sim_fresh = (Returns None, sim_fresh)"
    by (simp add: sim_defs)
  have start: "sim_start sim_fresh\<lparr>cloud := sim_fresh, trace := trace (sim_start sim_fresh) @ evs\<rparr>
      = \<lparr>cloud = sim_fresh, trace = evs\<rparr>" for evs :: "nat event list"
    by (simp add: sim_start_def)
  have ok: "fst (openInternalPorts sim_sdk sim_az (InfraID sim_az) (InternalPorts sim_input) 1 s)
      = None" if "cloud s = sim_fresh" for s :: "(sim_cloud, nat) state"
    using that by (simp add: func_defs run_defs sim_defs)
  note inst = PrepareForSubmariner_order [where az=sim_az and input=sim_input and r'="1::nat"
      and r="0::nat" and s="sim_start sim_fresh" and sdk=sim_sdk and ?w1.0=sim_fresh
      and ?w2.0=sim_fresh]
  from inst [where steps=sim_steps_gw_fails and e="SdkError ''Forbidden''"] gw
  have a: "PrepareForSubmariner sim_sdk sim_steps_gw_fails sim_az 1 sim_input 0
      (sim_start sim_fresh) =
     (Returns (Some (SdkError ''Forbidden'')),
      \<lparr>cloud = sim_fresh,
       trace = [Report 0 prepare_Started,
                Step (gw_call sim_az sim_input) (Returns (Some (SdkError ''Forbidden''))),
                Report 0 (Failed [SdkError ''Forbidden''])]\<rparr>)"
    by (simp add: start)
  from inst [where steps=sim_steps_lb_fails and e="SdkError ''Conflict''"] gw_ok lb
  have b: "PrepareForSubmariner sim_sdk sim_steps_lb_fails sim_az 1 sim_input 0
      (sim_start sim_fresh) =
     (Returns (Some (SdkError ''Conflict'')),
      \<lparr>cloud = sim_fresh,
       trace = [Report 0 prepare_Started,
                Step (gw_call sim_az sim_input) (Returns None),
                Step (lb_call sim_az sim_input) (Returns (Some (SdkError ''Conflict''))),
                Report 0 (Failed [SdkError ''Conflict''])]\<rparr>)"
    by (simp add: start)
  from inst [where steps=sim_steps] gw_ok' lb_ok
  obtain err s3 where
    "openInternalPorts sim_sdk sim_az (InfraID sim_az) (InternalPorts sim_input) 1
       (sim_start sim_fresh\<lparr>cloud := sim_fresh,
          trace := trace (sim_start sim_fresh) @
            [Report 0 prepare_Started, Step (gw_call sim_az sim_input) (Returns None),
             Step (lb_call sim_az sim_input) (Returns None)]\<rparr>) = (err, s3)"
    and "fst (PrepareForSubmariner sim_sdk sim_steps sim_az 1 sim_input 0 (sim_start sim_fresh))
      = Returns err"
    by auto
  with ok [of "sim_start sim_fresh\<lparr>cloud := sim_fresh,
          trace := trace (sim_start sim_fresh) @
            [Report 0 prepare_Started, Step (gw_call sim_az sim_input) (Returns None),
             Step (lb_call sim_az sim_input) (Returns None)]\<rparr>"]
  have c: "fst (PrepareForSubmariner sim_sdk sim_steps sim_az 1 sim_input 0
      (sim_start sim_fresh)) = Returns None"
    by simp
  from a b c show ?thesis by simp
qed

section \<open>The existence check\<close>

text \<open>
  C2. When the \<open>Get\<close> of the group \<open>infraID + "-nsg"\<close> in \<open>BaseGroupName\<close> succeeds,
  \<open>openInternalPorts\<close> returns \<open>nil\<close> and that \<open>Get\<close> is its only call: no subnet lookup,
  no \<open>CreateOrUpdate\<close>. So a \<open>PrepareForSubmariner\<close> whose first two steps succeed and
  that finds the group does nothing to the cloud in its third step and reports success,
  as a second run does on the cloud that a first run left.
\<close>

theorem openInternalPorts_existing_group:
  "(SecurityGroupsClient_Get sdk (BaseGroupName c) (infraID @ ''-nsg'') (cloud s) = (Inr g, w) \<longrightarrow>
      openInternalPorts sdk c infraID ports rep s =
        (None,
         s\<lparr>cloud := w,
           trace := trace s @ [GetGroup (BaseGroupName c) (infraID @ ''-nsg'') (Inr g)]\<rparr>)) \<and>
   (openGWPorts steps az (InfraID az) (InternalPorts input) (cloud s) = (Returns None, w1) \<longrightarrow>
    createSubmarinerLoadBalancingRules steps az (InfraID az) ''public-lb-ip-v4''
      (InternalPorts input) w1 = (Returns None, w2) \<longrightarrow>
    SecurityGroupsClient_Get sdk (BaseGroupName az) (InfraID az @ ''-nsg'') w2 = (Inr g, w3) \<longrightarrow>
      PrepareForSubmariner sdk steps az r' input r s =
        (Returns None,
         s\<lparr>cloud := w3,
           trace := trace s @
             [Report r prepare_Started, Step (gw_call az input) (Returns None),
              Step (lb_call az input) (Returns None),
              GetGroup (BaseGroupName az) (InfraID az @ ''-nsg'') (Inr g),
              Step (internal_call az input) (Returns None),
              Report r (prepare_Succeeded (InternalPorts input))]\<rparr>))"
proof (intro conjI impI)
  assume "SecurityGroupsClient_Get sdk (BaseGroupName c) (infraID @ ''-nsg'') (cloud s)
    = (Inr g, w)"
  then show "openInternalPorts sdk c infraID ports rep s =
        (None,
         s\<lparr>cloud := w,
           trace := trace s @ [GetGroup (BaseGroupName c) (infraID @ ''-nsg'') (Inr g)]\<rparr>)"
    by (rule oip_found)
next
  let ?s2 = "s\<lparr>cloud := w2,
      trace := trace s @ [Report r prepare_Started, Step (gw_call az input) (Returns None),
        Step (lb_call az input) (Returns None)]\<rparr>"
  assume steps: "openGWPorts steps az (InfraID az) (InternalPorts input) (cloud s)
      = (Returns None, w1)"
    "createSubmarinerLoadBalancingRules steps az (InfraID az) ''public-lb-ip-v4''
      (InternalPorts input) w1 = (Returns None, w2)"
    and "SecurityGroupsClient_Get sdk (BaseGroupName az) (InfraID az @ ''-nsg'') w2 = (Inr g, w3)"
  then have "SecurityGroupsClient_Get sdk (BaseGroupName az) (InfraID az @ ''-nsg'') (cloud ?s2)
    = (Inr g, w3)"
    by simp
  from prep_internal [OF steps oip_found [OF this]]
  show "PrepareForSubmariner sdk steps az r' input r s =
        (Returns None,
         s\<lparr>cloud := w3,
           trace := trace s @
             [Report r prepare_Started, Step (gw_call az input) (Returns None),
              Step (lb_call az input) (Returns None),
              GetGroup (BaseGroupName az) (InfraID az @ ''-nsg'') (Inr g),
              Step (internal_call az input) (Returns None),
              Report r (prepare_Succeeded (InternalPorts input))]\<rparr>)"
    by simp
qed

lemma sim_after_prepare_eq:
  "sim_after_prepare =
     sim_fresh\<lparr>sim_groups :=
       [((''rg'', ''c1-nsg''), new_group sim_az ''c1'' sim_ports sim_worker sim_master)]\<rparr>"
  unfolding sim_after_prepare_def by (simp add: func_defs run_defs sim_defs)

theorem openInternalPorts_existing_group_witness:
  "list_ex is_CreateOrUpdate (trace (snd (PrepareForSubmariner sim_sdk sim_steps sim_az 1
      sim_input (0::nat) (sim_start sim_fresh)))) \<and>
   PrepareForSubmariner sim_sdk sim_steps sim_az 1 sim_input 0 (sim_start sim_after_prepare) =
     (Returns None,
      \<lparr>cloud = sim_after_prepare,
       trace = [Report 0 prepare_Started, Step (gw_call sim_az sim_input) (Returns None),
                Step (lb_call sim_az sim_input) (Returns None),
                GetGroup ''rg'' ''c1-nsg''
                  (Inr (new_group sim_az ''c1'' sim_ports sim_worker sim_master)),
                Step (internal_call sim_az sim_input) (Returns None),
                Report 0 (prepare_Succeeded sim_ports)]\<rparr>)"
proof -
  have first: "list_ex is_CreateOrUpdate (trace (snd (PrepareForSubmariner sim_sdk sim_steps
      sim_az 1 sim_input (0::nat) (sim_start sim_fresh))))"
    by (simp add: func_defs run_defs sim_defs)
  have gw: "openGWPorts sim_steps sim_az (InfraID sim_az) (InternalPorts sim_input)
      (cloud (sim_start sim_after_prepare)) = (Returns None, sim_after_prepare)"
    by (simp add: sim_defs)
  have lb: "createSubmarinerLoadBalancingRules sim_steps sim_az (InfraID sim_az)
      ''public-lb-ip-v4'' (InternalPorts sim_input) sim_after_prepare
        = (Returns None, sim_after_prepare)"
    by (simp add: sim_defs)
  have get: "SecurityGroupsClient_Get sim_sdk (BaseGroupName sim_az) (InfraID sim_az @ ''-nsg'')
      sim_after_prepare
        = (Inr (new_group sim_az ''c1'' sim_ports sim_worker sim_master), sim_after_prepare)"
    unfolding sim_after_prepare_eq by (simp add: sim_defs)
  have names: "BaseGroupName sim_az = ''rg''" "InfraID sim_az = ''c1''"
    "InternalPorts sim_input = sim_ports"
    "sim_start sim_after_prepare\<lparr>cloud := sim_after_prepare,
       trace := trace (sim_start sim_after_prepare) @ evs\<rparr>
      = \<lparr>cloud = sim_after_prepare, trace = evs\<rparr>" for evs :: "nat event list"
    by (simp_all add: sim_az_def sim_input_def sim_start_def)
  from openInternalPorts_existing_group [where sdk=sim_sdk and steps=sim_steps and az=sim_az
      and input=sim_input and s="sim_start sim_after_prepare" and r'=1 and r=0
      and ?w1.0=sim_after_prepare and ?w2.0=sim_after_prepare and ?w3.0=sim_after_prepare
      and g="new_group sim_az ''c1'' sim_ports sim_worker sim_master"] gw lb get
  have "PrepareForSubmariner sim_sdk sim_steps sim_az 1 sim_input 0
      (sim_start sim_after_prepare) =
     (Returns None,
      \<lparr>cloud = sim_after_prepare,
       trace = [Report 0 prepare_Started, Step (gw_call sim_az sim_input) (Returns None),
                Step (lb_call sim_az sim_input) (Returns None),
                GetGroup ''rg'' ''c1-nsg''
                  (Inr (new_group sim_az ''c1'' sim_ports sim_worker sim_master)),
                Step (internal_call sim_az sim_input) (Returns None),
                Report 0 (prepare_Succeeded sim_ports)]\<rparr>)"
    by (simp add: names)
  with first show ?thesis by simp
qed

section \<open>The subnets\<close>




section \<open>Cleaning up twice\<close>

text \<open>
  C3, as stated, fails. A first \<open>CleanupAfterSubmariner\<close> on the cluster with its internal
  security group returns \<open>nil\<close> and leaves no group; a second one, on the cloud that the
  first left, returns the error of \<open>Get\<close>, wrapped, and reports \<open>Failed\<close>.
\<close>

theorem cleanup_twice_counterexample:
  "fst (CleanupAfterSubmariner sim_sdk sim_steps sim_az (0::nat) (sim_start sim_prepared))
     = Returns None \<and>
   sim_groups sim_after_cleanup = [] \<and>
   CleanupAfterSubmariner sim_sdk sim_steps sim_az (0::nat) (sim_start sim_after_cleanup) =
     (Returns (Some (Wrapped (SdkError ''ResourceNotFound'')
        ''error getting the securitygroup %q'' [AString ''c1-nsg''])),
      \<lparr>cloud = sim_after_cleanup,
       trace = [Report 0 cleanup_Started, Step (gw_removal sim_az) (Returns None),
                Step (lb_removal sim_az) (Returns None),
                GetGroup ''rg'' ''c1-nsg'' (Inl (SdkError ''ResourceNotFound'')),
                Step (internal_removal sim_az)
                  (Returns (Some (Wrapped (SdkError ''ResourceNotFound'')
                     ''error getting the securitygroup %q'' [AString ''c1-nsg'']))),
                Report 0 (Failed [Wrapped (SdkError ''ResourceNotFound'')
                     ''error getting the securitygroup %q'' [AString ''c1-nsg'']])]\<rparr>)"
proof -
  have after: "sim_after_cleanup = sim_fresh"
    unfolding sim_after_cleanup_def by (simp add: func_defs run_defs sim_defs)
  have first: "fst (CleanupAfterSubmariner sim_sdk sim_steps sim_az (0::nat)
      (sim_start sim_prepared)) = Returns None"
    by (simp add: func_defs run_defs sim_defs)
  have second: "CleanupAfterSubmariner sim_sdk sim_steps sim_az (0::nat) (sim_start sim_fresh) =
     (Returns (Some (Wrapped (SdkError ''ResourceNotFound'')
        ''error getting the securitygroup %q'' [AString ''c1-nsg''])),
      \<lparr>cloud = sim_fresh,
       trace = [Report 0 cleanup_Started, Step (gw_removal sim_az) (Returns None),
                Step (lb_removal sim_az) (Returns None),
                GetGroup ''rg'' ''c1-nsg'' (Inl (SdkError ''ResourceNotFound'')),
                Step (internal_removal sim_az)
                  (Returns (Some (Wrapped (SdkError ''ResourceNotFound'')
                     ''error getting the securitygroup %q'' [AString ''c1-nsg'']))),
                Report 0 (Failed [Wrapped (SdkError ''ResourceNotFound'')
                     ''error getting the securitygroup %q'' [AString ''c1-nsg'']])]\<rparr>)"
    by (simp add: func_defs run_defs sim_defs)
  have "sim_groups sim_fresh = []"
    by (simp add: sim_fresh_def)
  with first second show ?thesis
    unfolding after by simp
qed

text \<open>
  C3, amended. When the first two steps of \<open>CleanupAfterSubmariner\<close> succeed and the \<open>Get\<close>
  of the group \<open>infraID + "-nsg"\<close> fails, as it does when the group no longer exists, the
  call returns that error wrapped with \<open>"error getting the securitygroup %q"\<close>, reports
  \<open>Failed\<close> with it, and issues neither an update nor a delete.
\<close>

theorem cleanup_absent_group:
  "removeGWFirewallRules steps az (InfraID az) (cloud s) = (Returns None, w1) \<Longrightarrow>
   deleteSubmarinerLoadBalancingRules steps az (InfraID az) w1 = (Returns None, w2) \<Longrightarrow>
   SecurityGroupsClient_Get sdk (BaseGroupName az) (InfraID az @ ''-nsg'') w2 = (Inl e, w3) \<Longrightarrow>
   CleanupAfterSubmariner sdk steps az r s =
     (Returns (Some (Wrapped e ''error getting the securitygroup %q''
        [AString (InfraID az @ ''-nsg'')])),
      s\<lparr>cloud := w3,
        trace := trace s @
          [Report r cleanup_Started, Step (gw_removal az) (Returns None),
           Step (lb_removal az) (Returns None),
           GetGroup (BaseGroupName az) (InfraID az @ ''-nsg'') (Inl e),
           Step (internal_removal az)
             (Returns (Some (Wrapped e ''error getting the securitygroup %q''
                [AString (InfraID az @ ''-nsg'')]))),
           Report r (Failed [Wrapped e ''error getting the securitygroup %q''
                [AString (InfraID az @ ''-nsg'')]])]\<rparr>)"
proof -
  let ?s2 = "s\<lparr>cloud := w2,
      trace := trace s @ [Report r cleanup_Started, Step (gw_removal az) (Returns None),
        Step (lb_removal az) (Returns None)]\<rparr>"
  assume steps: "removeGWFirewallRules steps az (InfraID az) (cloud s) = (Returns None, w1)"
    "deleteSubmarinerLoadBalancingRules steps az (InfraID az) w1 = (Returns None, w2)"
    and "SecurityGroupsClient_Get sdk (BaseGroupName az) (InfraID az @ ''-nsg'') w2 = (Inl e, w3)"
  then have "SecurityGroupsClient_Get sdk (BaseGroupName az) (InfraID az @ ''-nsg'') (cloud ?s2)
    = (Inl e, w3)"
    by simp
  from clean_internal [OF steps rif_get_fails [OF this]] show ?thesis
    by simp
qed

theorem cleanup_absent_group_witness:
  "map_of (sim_groups sim_no_master) (''rg'', ''c1-nsg'') = None \<and>
   CleanupAfterSubmariner sim_sdk sim_steps sim_az (0::nat) (sim_start sim_no_master) =
     (Returns (Some (Wrapped (SdkError ''ResourceNotFound'')
        ''error getting the securitygroup %q'' [AString ''c1-nsg''])),
      \<lparr>cloud = sim_no_master,
       trace = [Report 0 cleanup_Started, Step (gw_removal sim_az) (Returns None),
                Step (lb_removal sim_az) (Returns None),
                GetGroup ''rg'' ''c1-nsg'' (Inl (SdkError ''ResourceNotFound'')),
                Step (internal_removal sim_az)
                  (Returns (Some (Wrapped (SdkError ''ResourceNotFound'')
                     ''error getting the securitygroup %q'' [AString ''c1-nsg'']))),
                Report 0 (Failed [Wrapped (SdkError ''ResourceNotFound'')
                     ''error getting the securitygroup %q'' [AString ''c1-nsg'']])]\<rparr>)"
proof -
  have absent: "map_of (sim_groups sim_no_master) (''rg'', ''c1-nsg'') = None"
    by (simp add: sim_defs)
  have gw: "removeGWFirewallRules sim_steps sim_az (InfraID sim_az)
      (cloud (sim_start sim_no_master)) = (Returns None, sim_no_master)"
    by (simp add: sim_defs)
  have lb: "deleteSubmarinerLoadBalancingRules sim_steps sim_az (InfraID sim_az) sim_no_master
      = (Returns None, sim_no_master)"
    by (simp add: sim_defs)
  have get: "SecurityGroupsClient_Get sim_sdk (BaseGroupName sim_az) (InfraID sim_az @ ''-nsg'')
      sim_no_master = (Inl (SdkError ''ResourceNotFound''), sim_no_master)"
    by (simp add: sim_defs)
  have names: "BaseGroupName sim_az = ''rg''" "InfraID sim_az = ''c1''"
    "sim_start w\<lparr>cloud := w, trace := trace (sim_start w) @ evs\<rparr> = \<lparr>cloud = w, trace = evs\<rparr>"
    for w and evs :: "nat event list"
    by (simp_all add: sim_az_def sim_start_def)
  from cleanup_absent_group [OF gw lb get, of 0] absent show ?thesis
    by (simp add: names)
qed

section \<open>The rules of the internal security group\<close>

lemma securityRules_loop_length:
  "length (securityRules_loop c i ports acc) = length acc + length ports"
  by (induction ports arbitrary: i acc) simp_all

lemma securityRules_loop_acc:
  "k < length acc \<Longrightarrow> securityRules_loop c i ports acc ! k = acc ! k"
  by (induction ports arbitrary: i acc) (simp_all add: nth_append)

lemma securityRules_loop_nth:
  "k < length ports \<Longrightarrow>
   securityRules_loop c i ports acc ! (length acc + k) = internal_rule c (i + k) (ports ! k)"
proof (induction ports arbitrary: i acc k)
  case Nil
  then show ?case by simp
next
  case (Cons port ports)
  show ?case
  proof (cases k)
    case 0
    then show ?thesis
      by (simp add: securityRules_loop_acc)
  next
    case (Suc j)
    with Cons.prems have "j < length ports" by simp
    from Cons.IH [OF this, of "Suc i" "acc @ [internal_rule c i port]"] Suc
    show ?thesis by simp
  qed
qed

lemma securityRules_nth:
  "k < length ports \<Longrightarrow> securityRules_loop c 0 ports [] ! k = internal_rule c k (ports ! k)"
  using securityRules_loop_nth [of k ports c 0 "[]"] by simp

lemma Itoa_port: "Itoa (uint (port :: 16 word)) = decimal (unat port)"
  by (simp add: Itoa_def)

lemma rule_priority_internal: "rule_priority (internal_rule c i port) = Some (word_of_nat (100 + i))"
  by (simp add: rule_priority_def createSecurityRule_def basePriority_def)

lemma priority_small:
  assumes "100 + i < 2 ^ 31"
  shows "sint (word_of_nat (100 + i) :: 32 word) = 100 + int i"
proof -
  from assms have "int (100 + i) < int (2 ^ 31)" by (simp only: of_nat_less_iff)
  then have "100 + int i < 2 ^ 31" by simp
  then have "signed_take_bit 31 (100 + int i) = 100 + int i"
    by (intro signed_take_bit_int_eq_self) simp_all
  moreover have "(word_of_nat (100 + i) :: 32 word) = word_of_int (100 + int i)"
    by simp
  ultimately show ?thesis
    by (simp only: sint_sbintrunc') simp
qed

lemma priority_inj:
  assumes "i < 2 ^ 32" and "j < 2 ^ 32"
    and "(word_of_nat (100 + i) :: 32 word) = word_of_nat (100 + j)"
  shows "i = j"
proof -
  from assms(3) have "(word_of_nat i :: 32 word) = word_of_nat j" by simp
  then have "unat (word_of_nat i :: 32 word) = unat (word_of_nat j :: 32 word)" by simp
  with assms(1,2) show "i = j" by (simp add: unat_of_nat)
qed

lemma priorities_distinct:
  assumes "length ports \<le> 2 ^ 32"
  shows "distinct (map rule_priority (securityRules_loop c 0 ports []))"
proof -
  have "i = j" if "i < length ports" "j < length ports"
    "map rule_priority (securityRules_loop c 0 ports []) ! i =
     map rule_priority (securityRules_loop c 0 ports []) ! j" for i j
  proof -
    from that assms have "i < 2 ^ 32" "j < 2 ^ 32" by simp_all
    moreover from that have "(word_of_nat (100 + i) :: 32 word) = word_of_nat (100 + j)"
      by (simp only: nth_map securityRules_loop_length list.size add_0 securityRules_nth
          rule_priority_internal option.inject)
    ultimately show ?thesis by (rule priority_inj)
  qed
  then show ?thesis
    by (simp add: distinct_conv_nth securityRules_loop_length) blast
qed


text \<open>
  C8, as stated, fails on a long list. The priority is \<open>int32(basePriority+i)\<close>: in a
  list of 4294967297 ports the rule at index 2147483548 has priority -2147483648, not
  2147483648, and the rules at index 0 and at index 4294967296 both have priority 100.
\<close>

theorem priority_overflow_counterexample:
  "map_option sint (rule_priority (securityRules_loop sim_az 0
      (replicate 4294967297 \<lparr>Port = 4800, Protocol = ''udp''\<rparr>) [] ! 2147483548))
     = Some (- 2147483648) \<and>
   rule_priority (securityRules_loop sim_az 0
      (replicate 4294967297 \<lparr>Port = 4800, Protocol = ''udp''\<rparr>) [] ! 0) =
   rule_priority (securityRules_loop sim_az 0
      (replicate 4294967297 \<lparr>Port = 4800, Protocol = ''udp''\<rparr>) [] ! 4294967296)"
proof -
  define ports where "ports = replicate 4294967297 \<lparr>Port = 4800, Protocol = ''udp''\<rparr>"
  have len: "length ports = 4294967297"
    unfolding ports_def by (simp only: length_replicate)
  have at: "rule_priority (securityRules_loop sim_az 0 ports [] ! k) = Some (word_of_nat (100 + k))"
    if "k < 4294967297" for k
    using that by (simp only: securityRules_nth len rule_priority_internal)
  have "(0::nat) < 4294967297" "(2147483548::nat) < 4294967297" "(4294967296::nat) < 4294967297"
    by simp_all
  note at [OF this(1)] at [OF this(2)] at [OF this(3)]
  moreover have "sint (word_of_nat (100 + 2147483548) :: 32 word) = - 2147483648"
    by simp
  moreover have "(word_of_nat (100 + 4294967296) :: 32 word) = word_of_nat (100 + 0)"
    by simp
  ultimately show ?thesis
    unfolding ports_def by (simp only: option.map)
qed


text \<open>
  C8, amended. When \<open>openInternalPorts\<close> creates the group it hands \<open>CreateOrUpdate\<close> one
  rule for each port, in order. The rule of the port at index \<open>i\<close> is named
  \<open>"Submariner-Internal-" + protocol + "-" + port\<close>, has the destination port range
  \<open>port + "-" + port\<close>, the source port range \<open>"*"\<close>, the source and destination address
  prefix \<open>"0.0.0.0/0"\<close>, direction inbound, access allow, and as priority the low 32 bits
  of \<open>100 + i\<close>, which is \<open>100 + i\<close> as long as that is below \<open>2^31\<close>. The priorities of
  one call are pairwise distinct when the list has at most \<open>2^32\<close> ports.
\<close>

theorem internal_rules:
  "(SecurityGroupsClient_Get sdk (BaseGroupName c) (infraID @ ''-nsg'') (cloud s) = (Inl e, w) \<longrightarrow>
    SubnetsClient_Get sdk (BaseGroupName c) (infraID @ ''-vnet'') (infraID @ ''-worker-subnet'') w
      = (Inr ws, w1) \<longrightarrow>
    SubnetsClient_Get sdk (BaseGroupName c) (infraID @ ''-vnet'') (infraID @ ''-master-subnet'') w1
      = (Inr ms, w2) \<longrightarrow>
    (\<exists>grp props res evs.
       trace (snd (openInternalPorts sdk c infraID ports rep s)) =
         trace s @ lookups c infraID rep e ws ms @
           CreateOrUpdateGroup (BaseGroupName c) (infraID @ ''-nsg'') grp res # evs \<and>
       sg_properties grp = Some props \<and>
       SecurityRules props = Some (securityRules_loop c 0 ports []))) \<and>
   length (securityRules_loop c 0 ports []) = length ports \<and>
   (\<forall>i<length ports.
      securityRules_loop c 0 ports [] ! i =
        \<lparr>rule_Name = Some (''Submariner-Internal-'' @ Protocol (ports ! i) @ ''-'' @
           decimal (unat (Port (ports ! i)))),
         rule_properties = Some
           \<lparr>rule_Protocol = Protocol (ports ! i),
            DestinationPortRange = Some (decimal (unat (Port (ports ! i))) @ ''-'' @
              decimal (unat (Port (ports ! i)))),
            SourceAddressPrefix = Some ''0.0.0.0/0'',
            DestinationAddressPrefix = Some ''0.0.0.0/0'',
            SourcePortRange = Some ''*'',
            Access = SecurityRuleAccessAllow,
            Direction = SecurityRuleDirectionInbound,
            Priority = Some (word_of_nat (100 + i))\<rparr>\<rparr> \<and>
      (100 + i < 2 ^ 31 \<longrightarrow>
         map_option sint (rule_priority (securityRules_loop c 0 ports [] ! i))
           = Some (100 + int i))) \<and>
   (length ports \<le> 2 ^ 32 \<longrightarrow>
      distinct (map rule_priority (securityRules_loop c 0 ports [])))"
proof (intro conjI impI allI)
  assume get: "SecurityGroupsClient_Get sdk (BaseGroupName c) (infraID @ ''-nsg'') (cloud s)
      = (Inl e, w)"
    and worker: "SubnetsClient_Get sdk (BaseGroupName c) (infraID @ ''-vnet'')
      (infraID @ ''-worker-subnet'') w = (Inr ws, w1)"
    and master: "SubnetsClient_Get sdk (BaseGroupName c) (infraID @ ''-vnet'')
      (infraID @ ''-master-subnet'') w1 = (Inr ms, w2)"
  have "\<exists>res evs.
        trace (snd (openInternalPorts sdk c infraID ports rep s)) =
          trace s @ lookups c infraID rep e ws ms @
            CreateOrUpdateGroup (BaseGroupName c) (infraID @ ''-nsg'')
              (new_group c infraID ports ws ms) res # evs"
    by (cases rule: oip_run [where sdk=sdk and c=c and infraID=infraID and s=s and ports=ports
          and rep=rep]) (use get worker master in auto)
  then show "\<exists>grp props res evs.
       trace (snd (openInternalPorts sdk c infraID ports rep s)) =
         trace s @ lookups c infraID rep e ws ms @
           CreateOrUpdateGroup (BaseGroupName c) (infraID @ ''-nsg'') grp res # evs \<and>
       sg_properties grp = Some props \<and>
       SecurityRules props = Some (securityRules_loop c 0 ports [])"
    by force
next
  show "length (securityRules_loop c 0 ports []) = length ports"
    by (simp add: securityRules_loop_length)
next
  fix i
  assume i: "i < length ports"
  show "securityRules_loop c 0 ports [] ! i =
        \<lparr>rule_Name = Some (''Submariner-Internal-'' @ Protocol (ports ! i) @ ''-'' @
           decimal (unat (Port (ports ! i)))),
         rule_properties = Some
           \<lparr>rule_Protocol = Protocol (ports ! i),
            DestinationPortRange = Some (decimal (unat (Port (ports ! i))) @ ''-'' @
              decimal (unat (Port (ports ! i)))),
            SourceAddressPrefix = Some ''0.0.0.0/0'',
            DestinationAddressPrefix = Some ''0.0.0.0/0'',
            SourcePortRange = Some ''*'',
            Access = SecurityRuleAccessAllow,
            Direction = SecurityRuleDirectionInbound,
            Priority = Some (word_of_nat (100 + i))\<rparr>\<rparr>"
    unfolding securityRules_nth [OF i]
    by (simp add: createSecurityRule_def Itoa_port internalSecurityRulePrefix_def
        allNetworkCIDR_def basePriority_def)
  assume "100 + i < 2 ^ 31"
  then show "map_option sint (rule_priority (securityRules_loop c 0 ports [] ! i))
      = Some (100 + int i)"
    by (simp only: securityRules_nth [OF i] rule_priority_internal option.map priority_small)
next
  assume "length ports \<le> 2 ^ 32"
  then show "distinct (map rule_priority (securityRules_loop c 0 ports []))"
    by (rule priorities_distinct)
qed

theorem internal_rules_witness:
  "(\<exists>grp props res evs.
      trace (snd (openInternalPorts sim_sdk sim_az ''c1'' sim_ports 1 (sim_start sim_fresh))) =
        lookups sim_az ''c1'' 1 (SdkError ''ResourceNotFound'') sim_worker sim_master @
          CreateOrUpdateGroup ''rg'' ''c1-nsg'' grp res # evs \<and>
      sg_properties grp = Some props \<and>
      SecurityRules props = Some (securityRules_loop sim_az 0 sim_ports [])) \<and>
   length (securityRules_loop sim_az 0 sim_ports []) = 2 \<and>
   securityRules_loop sim_az 0 sim_ports [] ! 1 =
     \<lparr>rule_Name = Some ''Submariner-Internal-tcp-8080'',
      rule_properties = Some
        \<lparr>rule_Protocol = ''tcp'',
         DestinationPortRange = Some ''8080-8080'',
         SourceAddressPrefix = Some ''0.0.0.0/0'',
         DestinationAddressPrefix = Some ''0.0.0.0/0'',
         SourcePortRange = Some ''*'',
         Access = SecurityRuleAccessAllow,
         Direction = SecurityRuleDirectionInbound,
         Priority = Some 101\<rparr>\<rparr> \<and>
   map_option sint (rule_priority (securityRules_loop sim_az 0 sim_ports [] ! 1)) = Some 101 \<and>
   distinct (map rule_priority (securityRules_loop sim_az 0 sim_ports []))"
proof -
  have get: "SecurityGroupsClient_Get sim_sdk (BaseGroupName sim_az) (''c1'' @ ''-nsg'')
      (cloud (sim_start sim_fresh)) = (Inl (SdkError ''ResourceNotFound''), sim_fresh)"
    by (simp add: sim_defs)
  have worker: "SubnetsClient_Get sim_sdk (BaseGroupName sim_az) (''c1'' @ ''-vnet'')
      (''c1'' @ ''-worker-subnet'') sim_fresh = (Inr sim_worker, sim_fresh)"
    by (simp add: sim_defs)
  have master: "SubnetsClient_Get sim_sdk (BaseGroupName sim_az) (''c1'' @ ''-vnet'')
      (''c1'' @ ''-master-subnet'') sim_fresh = (Inr sim_master, sim_fresh)"
    by (simp add: sim_defs)
  have len: "length sim_ports = 2" "(1::nat) < length sim_ports" "length sim_ports \<le> 2 ^ 32"
    "100 + (1::nat) < 2 ^ 31"
    by (simp_all add: sim_ports_def)
  have port: "sim_ports ! 1 = \<lparr>Port = 8080, Protocol = ''tcp''\<rparr>"
    by (simp add: sim_ports_def)
  have names: "BaseGroupName sim_az = ''rg''" "trace (sim_start sim_fresh) = []"
    by (simp_all add: sim_az_def sim_start_def)
  note inst = internal_rules [where sdk=sim_sdk and c=sim_az and infraID="''c1''"
      and s="sim_start sim_fresh" and e="SdkError ''ResourceNotFound''" and w=sim_fresh
      and ws=sim_worker and ?w1.0=sim_fresh and ms=sim_master and ?w2.0=sim_fresh
      and ports=sim_ports and rep="1::nat"]
  from inst get worker master have a: "\<exists>grp props res evs.
      trace (snd (openInternalPorts sim_sdk sim_az ''c1'' sim_ports 1 (sim_start sim_fresh))) =
        lookups sim_az ''c1'' 1 (SdkError ''ResourceNotFound'') sim_worker sim_master @
          CreateOrUpdateGroup ''rg'' ''c1-nsg'' grp res # evs \<and>
      sg_properties grp = Some props \<and>
      SecurityRules props = Some (securityRules_loop sim_az 0 sim_ports [])"
    by (simp add: names)
  from inst have b: "length (securityRules_loop sim_az 0 sim_ports []) = 2"
    by (simp add: len)
  from inst len have at: "securityRules_loop sim_az 0 sim_ports [] ! 1 =
        \<lparr>rule_Name = Some (''Submariner-Internal-'' @ Protocol (sim_ports ! 1) @ ''-'' @
           decimal (unat (Port (sim_ports ! 1)))),
         rule_properties = Some
           \<lparr>rule_Protocol = Protocol (sim_ports ! 1),
            DestinationPortRange = Some (decimal (unat (Port (sim_ports ! 1))) @ ''-'' @
              decimal (unat (Port (sim_ports ! 1)))),
            SourceAddressPrefix = Some ''0.0.0.0/0'',
            DestinationAddressPrefix = Some ''0.0.0.0/0'',
            SourcePortRange = Some ''*'',
            Access = SecurityRuleAccessAllow,
            Direction = SecurityRuleDirectionInbound,
            Priority = Some (word_of_nat (100 + 1))\<rparr>\<rparr>"
    and d: "map_option sint (rule_priority (securityRules_loop sim_az 0 sim_ports [] ! 1))
      = Some (100 + int 1)"
    and e: "distinct (map rule_priority (securityRules_loop sim_az 0 sim_ports []))"
    by blast+
  from at [unfolded port] have c: "securityRules_loop sim_az 0 sim_ports [] ! 1 =
     \<lparr>rule_Name = Some ''Submariner-Internal-tcp-8080'',
      rule_properties = Some
        \<lparr>rule_Protocol = ''tcp'',
         DestinationPortRange = Some ''8080-8080'',
         SourceAddressPrefix = Some ''0.0.0.0/0'',
         DestinationAddressPrefix = Some ''0.0.0.0/0'',
         SourcePortRange = Some ''*'',
         Access = SecurityRuleAccessAllow,
         Direction = SecurityRuleDirectionInbound,
         Priority = Some 101\<rparr>\<rparr>"
    by (simp add: decimal_small decimal_big digit_def)
  from d have d': "map_option sint (rule_priority (securityRules_loop sim_az 0 sim_ports [] ! 1))
      = Some 101"
    by simp
  from a b c d' e show ?thesis by blast
qed

section \<open>Waiting for long-running operations\<close>

text \<open>
  C5. In every run of \<open>openInternalPorts\<close> and of \<open>removeInternalFirewallRules\<close>, each
  \<open>CreateOrUpdate\<close> and each \<open>Delete\<close> that returned a future is followed at once by the
  wait for that future. \<open>openInternalPorts\<close>, when it has issued a \<open>CreateOrUpdate\<close>,
  returns \<open>nil\<close> only after the wait for it returned \<open>nil\<close>;
  \<open>removeInternalFirewallRules\<close> returns \<open>nil\<close> only after the update, the wait for it,
  the delete and the wait for it all returned without an error. An error of a wait is
  returned, wrapped.
\<close>

theorem operations_are_waited_for:
  "(\<exists>evs. trace (snd (openInternalPorts sdk c infraID ports rep s)) = trace s @ evs \<and>
      waited evs \<and>
      (fst (openInternalPorts sdk c infraID ports rep s) = None \<longrightarrow>
       list_ex is_CreateOrUpdate evs \<longrightarrow>
         (\<exists>e ws ms fut. evs = lookups c infraID rep e ws ms @
            [CreateOrUpdateGroup (BaseGroupName c) (infraID @ ''-nsg'')
               (new_group c infraID ports ws ms) (Inr fut),
             Wait fut None])) \<and>
      (\<forall>fut e. Wait fut (Some e) \<in> set evs \<longrightarrow>
         fst (openInternalPorts sdk c infraID ports rep s) =
           Some (Wrapped e ''Error creating  security group %v ''
             [AString (infraID @ ''-nsg'')]))) \<and>
   (\<exists>evs. trace (snd (removeInternalFirewallRules sdk c infraID s)) = trace s @ evs \<and>
      waited evs \<and>
      (fst (removeInternalFirewallRules sdk c infraID s) = Returns None \<longrightarrow>
         (\<exists>g p fu fd. sg_properties g = Some p \<and>
            evs = [GetGroup (BaseGroupName c) (infraID @ ''-nsg'') (Inr g),
                   CreateOrUpdateGroup (BaseGroupName c) (infraID @ ''-nsg'') (detached g p)
                     (Inr fu),
                   Wait fu None,
                   DeleteGroup (BaseGroupName c) (infraID @ ''-nsg'') (Inr fd),
                   Wait fd None])) \<and>
      (\<forall>fut e. Wait fut (Some e) \<in> set evs \<longrightarrow>
         fst (removeInternalFirewallRules sdk c infraID s) =
           Returns (Some (Wrapped e ''waiting for security group  %q to be updated failed''
             [AString (infraID @ ''-nsg'')])) \<or>
         fst (removeInternalFirewallRules sdk c infraID s) =
           Returns (Some (Wrapped e ''waiting for security group  %q to be deleted failed''
             [AString (infraID @ ''-nsg'')]))))"
proof (rule conjI)
  show "\<exists>evs. trace (snd (openInternalPorts sdk c infraID ports rep s)) = trace s @ evs \<and>
      waited evs \<and>
      (fst (openInternalPorts sdk c infraID ports rep s) = None \<longrightarrow>
       list_ex is_CreateOrUpdate evs \<longrightarrow>
         (\<exists>e ws ms fut. evs = lookups c infraID rep e ws ms @
            [CreateOrUpdateGroup (BaseGroupName c) (infraID @ ''-nsg'')
               (new_group c infraID ports ws ms) (Inr fut),
             Wait fut None])) \<and>
      (\<forall>fut e. Wait fut (Some e) \<in> set evs \<longrightarrow>
         fst (openInternalPorts sdk c infraID ports rep s) =
           Some (Wrapped e ''Error creating  security group %v ''
             [AString (infraID @ ''-nsg'')]))"
  proof (cases rule: oip_run [where sdk=sdk and c=c and infraID=infraID and s=s and ports=ports
        and rep=rep])
    case (created e w ws w1 ms w2 fut err w4)
    then show ?thesis by (cases err) auto
  qed auto
next
  show "\<exists>evs. trace (snd (removeInternalFirewallRules sdk c infraID s)) = trace s @ evs \<and>
      waited evs \<and>
      (fst (removeInternalFirewallRules sdk c infraID s) = Returns None \<longrightarrow>
         (\<exists>g p fu fd. sg_properties g = Some p \<and>
            evs = [GetGroup (BaseGroupName c) (infraID @ ''-nsg'') (Inr g),
                   CreateOrUpdateGroup (BaseGroupName c) (infraID @ ''-nsg'') (detached g p)
                     (Inr fu),
                   Wait fu None,
                   DeleteGroup (BaseGroupName c) (infraID @ ''-nsg'') (Inr fd),
                   Wait fd None])) \<and>
      (\<forall>fut e. Wait fut (Some e) \<in> set evs \<longrightarrow>
         fst (removeInternalFirewallRules sdk c infraID s) =
           Returns (Some (Wrapped e ''waiting for security group  %q to be updated failed''
             [AString (infraID @ ''-nsg'')])) \<or>
         fst (removeInternalFirewallRules sdk c infraID s) =
           Returns (Some (Wrapped e ''waiting for security group  %q to be deleted failed''
             [AString (infraID @ ''-nsg'')])))"
  proof (cases rule: rif_run [where sdk=sdk and c=c and infraID=infraID and s=s])
    case (deleted g w p fu w1 w2 fd w3 err w4)
    then show ?thesis by (cases err) auto
  qed auto
qed


theorem operations_are_waited_for_witness:
  "fst (openInternalPorts sim_sdk sim_az ''c1'' sim_ports 1 (sim_start sim_fresh)) = None \<and>
   trace (snd (openInternalPorts sim_sdk sim_az ''c1'' sim_ports 1 (sim_start sim_fresh))) =
     lookups sim_az ''c1'' 1 (SdkError ''ResourceNotFound'') sim_worker sim_master @
       [CreateOrUpdateGroup ''rg'' ''c1-nsg''
          (new_group sim_az ''c1'' sim_ports sim_worker sim_master) (Inr (Future 1)),
        Wait (Future 1) None] \<and>
   Wait (Future 1) (Some (SdkError ''Timeout'')) \<in>
     set (trace (snd (openInternalPorts sim_sdk sim_az ''c1'' sim_ports 1 (sim_start sim_slow)))) \<and>
   fst (openInternalPorts sim_sdk sim_az ''c1'' sim_ports 1 (sim_start sim_slow)) =
     Some (Wrapped (SdkError ''Timeout'') ''Error creating  security group %v ''
       [AString ''c1-nsg'']) \<and>
   fst (removeInternalFirewallRules sim_sdk sim_az ''c1'' (sim_start sim_prepared))
     = Returns None \<and>
   waited (trace (snd (removeInternalFirewallRules sim_sdk sim_az ''c1''
     (sim_start sim_prepared))))"
proof -
  have empty: "trace (sim_start w) = []" for w
    by (simp add: sim_start_def)
  have nil: "fst (openInternalPorts sim_sdk sim_az ''c1'' sim_ports 1 (sim_start sim_fresh))
      = None"
    by (simp add: func_defs run_defs sim_defs)
  have created: "list_ex is_CreateOrUpdate
      (trace (snd (openInternalPorts sim_sdk sim_az ''c1'' sim_ports 1 (sim_start sim_fresh))))"
    by (simp add: func_defs run_defs sim_defs)
  have run: "trace (snd (openInternalPorts sim_sdk sim_az ''c1'' sim_ports 1
      (sim_start sim_fresh))) =
     lookups sim_az ''c1'' 1 (SdkError ''ResourceNotFound'') sim_worker sim_master @
       [CreateOrUpdateGroup ''rg'' ''c1-nsg''
          (new_group sim_az ''c1'' sim_ports sim_worker sim_master) (Inr (Future 1)),
        Wait (Future 1) None]"
    by (simp add: func_defs run_defs sim_defs)
  have timeout: "Wait (Future 1) (Some (SdkError ''Timeout'')) \<in>
     set (trace (snd (openInternalPorts sim_sdk sim_az ''c1'' sim_ports 1 (sim_start sim_slow))))"
    by (simp add: func_defs run_defs sim_defs)
  have removed: "fst (removeInternalFirewallRules sim_sdk sim_az ''c1''
      (sim_start sim_prepared)) = Returns None"
    by (simp add: func_defs run_defs sim_defs)
  note inst = operations_are_waited_for [where sdk=sim_sdk and c=sim_az and infraID="''c1''"
      and ports=sim_ports and rep="1::nat"]
  from inst [where s="sim_start sim_slow"] timeout
  have failed: "fst (openInternalPorts sim_sdk sim_az ''c1'' sim_ports 1 (sim_start sim_slow)) =
     Some (Wrapped (SdkError ''Timeout'') ''Error creating  security group %v ''
       [AString ''c1-nsg''])"
    by (auto simp: empty)
  from inst [where s="sim_start sim_prepared"]
  have "waited (trace (snd (removeInternalFirewallRules sim_sdk sim_az ''c1''
     (sim_start sim_prepared))))"
    by (auto simp: empty)
  with nil created run timeout failed removed show ?thesis by simp
qed

section \<open>The order of the removal\<close>




end
